theory Spec2Isabelle
  imports Main "HOL-Library.Word"
begin

section \<open>Values, exceptions and the environment of \<^verbatim>\<open>run_inference.py\<close>\<close>

text \<open>
  A Python \<^verbatim>\<open>str\<close> is a \<^typ>\<open>string\<close> whose characters are its code points
  (the range U+0000 .. U+00FF). A value produced by \<^verbatim>\<open>yaml.safe_load\<close> is a
  \<open>yaml\<close>: null, boolean, integer, float (its 64 bits), string, sequence or
  mapping. A mapping is the association list of the loaded \<^verbatim>\<open>dict\<close>, in
  insertion order.
\<close>

datatype yaml =
    YNull
  | YBool bool
  | YInt int
  | YFloat "64 word"
  | YStr string
  | YSeq "yaml list"
  | YMap "(yaml \<times> yaml) list"

text \<open>
  An exception is represented by the class the \<^verbatim>\<open>except\<close> clauses of \<^verbatim>\<open>main\<close> can
  tell apart, with \<^verbatim>\<open>str(e)\<close> as its argument. \<open>FileNotFoundError\<close> and
  \<open>ValueError\<close> stand for instances of these classes and of their subclasses
  (\<^verbatim>\<open>UnicodeDecodeError\<close> is a \<^verbatim>\<open>ValueError\<close>); \<open>YAMLError\<close> is PyYAML's
  \<^verbatim>\<open>yaml.YAMLError\<close>, a direct subclass of \<^verbatim>\<open>Exception\<close>; \<open>OtherException\<close> is
  any other instance of \<^verbatim>\<open>Exception\<close>.
\<close>

datatype exn =
    FileNotFoundError string
  | ValueError string
  | KeyError string
  | TypeError string
  | AttributeError string
  | YAMLError string
  | OtherException string

text \<open>What leaves the \<^verbatim>\<open>try\<close> block: an exception, or \<^verbatim>\<open>SystemExit\<close> raised by
  \<^verbatim>\<open>sys.exit\<close> (a \<^verbatim>\<open>BaseException\<close> that \<^verbatim>\<open>except Exception\<close> does not catch).\<close>

datatype signal = Raise exn | SystemExit nat

datatype node = Dir | File

datatype level = WARNING | ERROR

text \<open>
  The observable trace of a run: the log records of level WARNING and above (the flag
  tells whether the record carries the traceback, as \<^verbatim>\<open>logger.exception\<close> adds it),
  the calls made to the collaborators, in program order, and the traceback the
  interpreter prints for an exception that no handler caught. INFO records only format
  values already computed and are not part of the trace.
\<close>

datatype event =
    LogRecord level bool string
  | Call_DetectAndClassify yaml yaml "string list" yaml yaml yaml
  | Call_mkdir string bool bool
  | Call_predict "string list" yaml yaml string bool
  | Uncaught exn

text \<open>
  The environment of a run. \<open>stat\<close> is the result of \<^verbatim>\<open>os.stat\<close> on a path string,
  \<open>None\<close> when it raises; \<open>stat_failure\<close> is then the exception raised when it is
  one that \<^verbatim>\<open>Path.exists\<close> and \<^verbatim>\<open>Path.is_dir\<close> raise again (an \<^verbatim>\<open>OSError\<close> whose
  \<^verbatim>\<open>errno\<close> is not ENOENT, ENOTDIR, EBADF or ELOOP), and \<open>None\<close> when it is one they
  take for an absent path. \<open>timestamp\<close> is \<^verbatim>\<open>datetime.now()\<close> formatted by
  \<^verbatim>\<open>setup_logging\<close>, and \<open>FileHandler\<close> is the opening of the log file by
  \<^verbatim>\<open>logging.FileHandler\<close>. \<open>read_text\<close> is opening a file for reading as
  UTF-8 text and reading it to the end; \<open>safe_load\<close> is \<^verbatim>\<open>yaml.safe_load\<close> on that
  text; \<open>get_all_image_paths\<close>, \<open>DetectAndClassify\<close> and \<open>predict\<close> are the
  functions of the package \<^verbatim>\<open>awc_helpers\<close>; \<open>mkdir\<close> is
  \<^verbatim>\<open>Path.mkdir\<close> on a path string with the flags \<^verbatim>\<open>parents\<close> and \<^verbatim>\<open>exist_ok\<close>.
  Each of them either returns or raises.
\<close>

record world =
  timestamp :: string
  FileHandler :: "string \<Rightarrow> exn option"
  stat :: "string \<Rightarrow> node option"
  stat_failure :: "string \<Rightarrow> exn option"
  read_text :: "string \<Rightarrow> exn + string"
  safe_load :: "string \<Rightarrow> exn + yaml"
  get_all_image_paths :: "string \<Rightarrow> exn + string list"
  DetectAndClassify :: "yaml \<Rightarrow> yaml \<Rightarrow> string list \<Rightarrow> yaml \<Rightarrow> yaml \<Rightarrow> yaml \<Rightarrow> exn option"
  predict :: "string list \<Rightarrow> yaml \<Rightarrow> yaml \<Rightarrow> string \<Rightarrow> bool \<Rightarrow> exn option"
  mkdir :: "string \<Rightarrow> bool \<Rightarrow> bool \<Rightarrow> exn option"

text \<open>The parsed command line: \<^verbatim>\<open>image_folder\<close>, \<^verbatim>\<open>--config\<close> and the value of
  \<^verbatim>\<open>--output\<close> (\<open>None\<close> when the option is not given).\<close>

record args =
  image_folder :: string
  config :: string
  output_override :: "string option"

section \<open>Operations of Python on these values\<close>

definition quote :: "string \<Rightarrow> string" where
  "quote s = CHR 0x27 # s @ [CHR 0x27]"

fun type_name :: "yaml \<Rightarrow> string" where
  "type_name YNull = ''NoneType''"
| "type_name (YBool b) = ''bool''"
| "type_name (YInt i) = ''int''"
| "type_name (YFloat x) = ''float''"
| "type_name (YStr s) = ''str''"
| "type_name (YSeq xs) = ''list''"
| "type_name (YMap m) = ''dict''"

text \<open>\<^verbatim>\<open>sep.join(xs)\<close>.\<close>

fun join :: "string \<Rightarrow> string list \<Rightarrow> string" where
  "join sep [] = []"
| "join sep [x] = x"
| "join sep (x # y # ys) = x @ sep @ join sep (y # ys)"

text \<open>\<^verbatim>\<open>s.startswith(p)\<close> and \<^verbatim>\<open>p in s\<close> on strings.\<close>

definition startswith :: "string \<Rightarrow> string \<Rightarrow> bool" where
  "startswith s p = (take (length p) s = p)"

fun contains :: "string \<Rightarrow> string \<Rightarrow> bool" where
  "contains [] p = (p = [])"
| "contains (c # cs) p = (startswith (c # cs) p \<or> contains cs p)"

text \<open>\<^verbatim>\<open>field in config\<close> for a string \<^verbatim>\<open>field\<close>: key membership in a dict, element
  membership in a list, substring test in a string, \<^verbatim>\<open>TypeError\<close> otherwise.\<close>

fun py_in :: "string \<Rightarrow> yaml \<Rightarrow> exn + bool" where
  "py_in k (YMap m) = Inr (YStr k \<in> fst ` set m)"
| "py_in k (YSeq xs) = Inr (YStr k \<in> set xs)"
| "py_in k (YStr s) = Inr (contains s k)"
| "py_in k v =
     Inl (TypeError (''argument of type '' @ quote (type_name v) @ '' is not iterable''))"

text \<open>\<^verbatim>\<open>config[key]\<close> for a string \<^verbatim>\<open>key\<close>.\<close>

fun subscript :: "yaml \<Rightarrow> string \<Rightarrow> exn + yaml" where
  "subscript (YMap m) k =
     (case map_of m (YStr k) of None \<Rightarrow> Inl (KeyError (quote k)) | Some v \<Rightarrow> Inr v)"
| "subscript (YSeq xs) k = Inl (TypeError ''list indices must be integers or slices, not str'')"
| "subscript (YStr s) k =
     Inl (TypeError (''string indices must be integers, not '' @ quote ''str''))"
| "subscript v k =
     Inl (TypeError (quote (type_name v) @ '' object is not subscriptable''))"

text \<open>\<^verbatim>\<open>config.get(key, default)\<close>.\<close>

fun get :: "yaml \<Rightarrow> string \<Rightarrow> yaml \<Rightarrow> exn + yaml" where
  "get (YMap m) k d = Inr (case map_of m (YStr k) of None \<Rightarrow> d | Some v \<Rightarrow> v)"
| "get v k d =
     Inl (AttributeError (quote (type_name v) @ '' object has no attribute '' @ quote ''get''))"

section \<open>\<^verbatim>\<open>pathlib\<close>: pure POSIX paths (CPython 3.11)\<close>

text \<open>
  A path is its root (\<open>''''\<close>, \<open>''/''\<close> or \<open>''//''\<close>) and its list \<^verbatim>\<open>_parts\<close>, whose
  first element is the root when there is one. The drive of a POSIX path is empty.
\<close>

record path =
  root :: string
  parts :: "string list"

text \<open>\<^verbatim>\<open>rel.split('/')\<close>.\<close>

fun split :: "char \<Rightarrow> string \<Rightarrow> string list" where
  "split sep [] = [[]]"
| "split sep (c # cs) =
     (if c = sep then [] # split sep cs
      else (case split sep cs of [] \<Rightarrow> [[c]] | w # ws \<Rightarrow> (c # w) # ws))"

definition splitroot :: "string \<Rightarrow> string \<times> string" where
  "splitroot part =
     (if part \<noteq> [] \<and> hd part = CHR ''/'' then
        (let stripped_part = dropWhile (\<lambda>c. c = CHR ''/'') part in
         if length part - length stripped_part = 2 then (''//'', stripped_part)
         else (''/'', stripped_part))
      else ('''', part))"

text \<open>\<^verbatim>\<open>parse_parts\<close> on the single argument of \<^verbatim>\<open>Path(arg)\<close>.\<close>

definition parse_parts :: "string \<Rightarrow> path" where
  "parse_parts part =
     (if part = [] then \<lparr>root = '''', parts = []\<rparr>
      else
        (let (root, rel) = splitroot part;
             parsed =
               (if CHR ''/'' \<in> set rel
                then filter (\<lambda>x. x \<noteq> [] \<and> x \<noteq> ''.'') (split (CHR ''/'') rel)
                else (if rel \<noteq> [] \<and> rel \<noteq> ''.'' then [rel] else []))
         in \<lparr>root = root, parts = (if root \<noteq> [] then [root] else []) @ parsed\<rparr>))"

text \<open>\<^verbatim>\<open>Path(x)\<close>: only a string is accepted.\<close>

fun Path :: "yaml \<Rightarrow> exn + path" where
  "Path (YStr s) = Inr (parse_parts s)"
| "Path v =
     Inl (TypeError (''expected str, bytes or os.PathLike object, not '' @ type_name v))"

text \<open>\<^verbatim>\<open>str(path)\<close>.\<close>

definition format_parsed_parts :: "path \<Rightarrow> string" where
  "format_parsed_parts p =
     (if root p \<noteq> [] then root p @ join ''/'' (tl (parts p)) else join ''/'' (parts p))"

definition path_str :: "path \<Rightarrow> string" where
  "path_str p = (if format_parsed_parts p = [] then ''.'' else format_parsed_parts p)"

definition name :: "path \<Rightarrow> string" where
  "name p =
     (if length (parts p) = (if root p \<noteq> [] then 1 else 0) then [] else last (parts p))"

text \<open>\<^verbatim>\<open>s.rfind('.')\<close>: the index of the last dot, \<open>None\<close> for Python's \<open>-1\<close>.\<close>

fun rfind_dot :: "string \<Rightarrow> nat option" where
  "rfind_dot [] = None"
| "rfind_dot (c # cs) =
     (case rfind_dot cs of
        Some i \<Rightarrow> Some (Suc i)
      | None \<Rightarrow> (if c = CHR ''.'' then Some 0 else None))"

definition suffix :: "path \<Rightarrow> string" where
  "suffix p =
     (case rfind_dot (name p) of
        None \<Rightarrow> []
      | Some i \<Rightarrow> (if 0 < i \<and> i < length (name p) - 1 then drop i (name p) else []))"

text \<open>\<^verbatim>\<open>repr(path)\<close> of a concrete path, as the message of \<^verbatim>\<open>with_suffix\<close> shows it.\<close>

definition path_repr :: "path \<Rightarrow> string" where
  "path_repr p = ''PosixPath('' @ quote (path_str p) @ '')''"

text \<open>\<^verbatim>\<open>path.with_suffix('')\<close>: the two checks of the new suffix pass for \<open>''''\<close>.\<close>

definition with_suffix_empty :: "path \<Rightarrow> exn + path" where
  "with_suffix_empty p =
     (if name p = [] then Inl (ValueError (path_repr p @ '' has an empty name''))
      else
        (let old_suffix = suffix p;
             name' = (if old_suffix = [] then name p
                      else take (length (name p) - length old_suffix) (name p))
         in Inr (p\<lparr>parts := butlast (parts p) @ [name']\<rparr>)))"

definition parent :: "path \<Rightarrow> path" where
  "parent p =
     (if length (parts p) = 1 \<and> root p \<noteq> [] then p else p\<lparr>parts := butlast (parts p)\<rparr>)"

text \<open>\<^verbatim>\<open>path / key\<close> for a string \<^verbatim>\<open>key\<close>: \<^verbatim>\<open>_make_child\<close> with
  \<^verbatim>\<open>join_parsed_parts\<close>.\<close>

definition join_parsed_parts :: "path \<Rightarrow> path \<Rightarrow> path" where
  "join_parsed_parts p p2 =
     (if root p2 \<noteq> [] then p2 else \<lparr>root = root p, parts = parts p @ parts p2\<rparr>)"

definition truediv :: "path \<Rightarrow> string \<Rightarrow> path" where
  "truediv p key = join_parsed_parts p (parse_parts key)"

text \<open>\<^verbatim>\<open>path.exists()\<close> and \<^verbatim>\<open>path.is_dir()\<close>: both call \<^verbatim>\<open>os.stat\<close> on
  \<^verbatim>\<open>str(path)\<close>, answer \<^verbatim>\<open>False\<close> when it raises an error they ignore, and raise any
  other error again.\<close>

definition exists :: "world \<Rightarrow> path \<Rightarrow> exn + bool" where
  "exists w p =
     (case stat w (path_str p) of
        Some n \<Rightarrow> Inr True
      | None \<Rightarrow> (case stat_failure w (path_str p) of Some e \<Rightarrow> Inl e | None \<Rightarrow> Inr False))"

definition is_dir :: "world \<Rightarrow> path \<Rightarrow> exn + bool" where
  "is_dir w p =
     (case stat w (path_str p) of
        Some n \<Rightarrow> Inr (n = Dir)
      | None \<Rightarrow> (case stat_failure w (path_str p) of Some e \<Rightarrow> Inl e | None \<Rightarrow> Inr False))"

section \<open>\<^verbatim>\<open>load_config\<close>\<close>

definition required_fields :: "string list" where
  "required_fields = [''detector_path'', ''classifier_path'']"

text \<open>The list comprehension \<^verbatim>\<open>[field for field in required_fields if field not in config]\<close>:
  the first \<^verbatim>\<open>TypeError\<close> of the membership test ends it.\<close>

fun missing_fields :: "string list \<Rightarrow> yaml \<Rightarrow> exn + string list" where
  "missing_fields [] cfg = Inr []"
| "missing_fields (field # others) cfg =
     (case py_in field cfg of
        Inl e \<Rightarrow> Inl e
      | Inr present \<Rightarrow>
          (case missing_fields others cfg of
             Inl e \<Rightarrow> Inl e
           | Inr rest \<Rightarrow> Inr (if \<not> present then field # rest else rest)))"

definition load_config :: "world \<Rightarrow> string \<Rightarrow> exn + yaml" where
  "load_config w config_path =
     (let config_file = parse_parts config_path in
      case exists w config_file of
        Inl e \<Rightarrow> Inl e
      | Inr found \<Rightarrow>
          if \<not> found
          then Inl (FileNotFoundError (''Config file not found: '' @ config_path))
          else
            (case read_text w (path_str config_file) of
               Inl e \<Rightarrow> Inl e
             | Inr text \<Rightarrow>
                 (case safe_load w text of
                    Inl e \<Rightarrow> Inl e
                  | Inr cfg \<Rightarrow>
                      (case missing_fields required_fields cfg of
                         Inl e \<Rightarrow> Inl e
                       | Inr missing \<Rightarrow>
                           if missing \<noteq> []
                           then Inl (ValueError (''Missing required config fields: ''
                                                  @ join '', '' missing))
                           else Inr cfg))))"

section \<open>\<^verbatim>\<open>load_labels\<close>\<close>

text \<open>\<^verbatim>\<open>c.isspace()\<close> on the code points below 256.\<close>

definition isspace :: "char \<Rightarrow> bool" where
  "isspace c = (of_char c \<in> {9, 10, 11, 12, 13, 28, 29, 30, 31, 32, 133, 160 :: nat})"

text \<open>\<^verbatim>\<open>line.strip()\<close>.\<close>

definition strip :: "string \<Rightarrow> string" where
  "strip s = rev (dropWhile isspace (rev (dropWhile isspace s)))"

text \<open>Reading in text mode with universal newlines: \<^verbatim>\<open>\r\n\<close> and \<^verbatim>\<open>\r\<close> become
  \<^verbatim>\<open>\n\<close>.\<close>

fun universal_newlines :: "string \<Rightarrow> string" where
  "universal_newlines [] = []"
| "universal_newlines [c] = (if c = CHR 0x0D then [CHR 0x0A] else [c])"
| "universal_newlines (c # d # cs) =
     (if c = CHR 0x0D \<and> d = CHR 0x0A then CHR 0x0A # universal_newlines cs
      else if c = CHR 0x0D then CHR 0x0A # universal_newlines (d # cs)
      else c # universal_newlines (d # cs))"

text \<open>The lines a file iterator yields: each ends with its \<^verbatim>\<open>\n\<close>, except possibly the
  last.\<close>

fun iter_lines :: "string \<Rightarrow> string list" where
  "iter_lines [] = []"
| "iter_lines (c # cs) =
     (if c = CHR 0x0A then [c] # iter_lines cs
      else (case iter_lines cs of [] \<Rightarrow> [[c]] | l # ls \<Rightarrow> (c # l) # ls))"

definition file_lines :: "string \<Rightarrow> string list" where
  "file_lines text = iter_lines (universal_newlines text)"

text \<open>The \<^verbatim>\<open>for line in f\<close> loop, with the list \<^verbatim>\<open>labels\<close> as accumulator.\<close>

fun collect_labels :: "string list \<Rightarrow> string list \<Rightarrow> string list" where
  "collect_labels labels [] = labels"
| "collect_labels labels (line # rest) =
     (let line = strip line in
      if line \<noteq> [] \<and> \<not> startswith line ''#''
      then collect_labels (labels @ [line]) rest
      else collect_labels labels rest)"

text \<open>\<^verbatim>\<open>load_labels(label_path)\<close>; the argument is the value \<^verbatim>\<open>config["label_path"]\<close>,
  and the f-strings of the messages need it to be a string only after \<^verbatim>\<open>Path\<close> has
  accepted it.\<close>

definition load_labels :: "world \<Rightarrow> yaml \<Rightarrow> exn + string list" where
  "load_labels w label_path =
     (case Path label_path of
        Inl e \<Rightarrow> Inl e
      | Inr label_file \<Rightarrow>
          (let shown = (case label_path of YStr s \<Rightarrow> s | _ \<Rightarrow> []) in
           case exists w label_file of
             Inl e \<Rightarrow> Inl e
           | Inr found \<Rightarrow>
               if \<not> found
               then Inl (FileNotFoundError (''Labels file not found: '' @ shown))
               else
                 (case read_text w (path_str label_file) of
                    Inl e \<Rightarrow> Inl e
                  | Inr text \<Rightarrow>
                      (let labels = collect_labels [] (file_lines text) in
                       if labels = [] then Inl (ValueError (''No labels found in '' @ shown))
                       else Inr labels))))"

section \<open>\<^verbatim>\<open>main\<close>\<close>

text \<open>\<^verbatim>\<open>args.output or config.get("output_name", "results")\<close>: the right operand is
  evaluated only when the left one is \<^verbatim>\<open>None\<close> or the empty string.\<close>

definition determine_output_name :: "string option \<Rightarrow> yaml \<Rightarrow> exn + yaml" where
  "determine_output_name out cfg =
     (case out of
        Some s \<Rightarrow> (if s \<noteq> [] then Inr (YStr s) else get cfg ''output_name'' (YStr ''results''))
      | None \<Rightarrow> get cfg ''output_name'' (YStr ''results''))"

text \<open>
  Lines 218 to 223 of \<^verbatim>\<open>main\<close>, the resolution of the output stem from the requested
  name and the image folder. The result is the events of the block and either the
  exception that ended it or the stem handed to \<^verbatim>\<open>predict\<close>.
\<close>

definition resolve_output_stem :: "world \<Rightarrow> yaml \<Rightarrow> path \<Rightarrow> event list \<times> (exn + string)" where
  "resolve_output_stem w requested folder =
     (case Path requested of
        Inl e \<Rightarrow> ([], Inl e)
      | Inr p \<Rightarrow>
          (case with_suffix_empty p of
             Inl e \<Rightarrow> ([], Inl e)
           | Inr out_path \<Rightarrow>
               if path_str (parent out_path) = ''.''
               then ([], Inr (path_str (truediv folder (name out_path))))
               else
                 (case mkdir w (path_str (parent out_path)) True True of
                    Some e \<Rightarrow> ([Call_mkdir (path_str (parent out_path)) True True], Inl e)
                  | None \<Rightarrow> ([Call_mkdir (path_str (parent out_path)) True True],
                             Inr (path_str out_path)))))"

text \<open>Sequencing inside the \<^verbatim>\<open>try\<close> block: a step that raises ends the block with its
  exception, before any event of the steps that follow.\<close>

definition step :: "exn + 'a \<Rightarrow> ('a \<Rightarrow> event list \<times> (signal + unit)) \<Rightarrow> event list \<times> (signal + unit)"
where
  "step r f = (case r of Inl e \<Rightarrow> ([], Inl (Raise e)) | Inr v \<Rightarrow> f v)"

text \<open>The calls to the pipeline (lines 203 to 231), once every parameter is resolved.\<close>

definition invoke_pipeline ::
  "world \<Rightarrow> yaml \<Rightarrow> yaml \<Rightarrow> string list \<Rightarrow> yaml \<Rightarrow> yaml \<Rightarrow> yaml \<Rightarrow> yaml \<Rightarrow> yaml \<Rightarrow> yaml
     \<Rightarrow> path \<Rightarrow> string list \<Rightarrow> event list \<times> (signal + unit)"
where
  "invoke_pipeline w detector_path classifier_path labels classifier_base detection_threshold
       classification_threshold batch_size topn requested folder image_paths =
     (let init = Call_DetectAndClassify detector_path classifier_path labels classifier_base
                   detection_threshold classification_threshold in
      case DetectAndClassify w detector_path classifier_path labels classifier_base
             detection_threshold classification_threshold of
        Some e \<Rightarrow> ([init], Inl (Raise e))
      | None \<Rightarrow>
          (case resolve_output_stem w requested folder of
             (evs, Inl e) \<Rightarrow> (init # evs, Inl (Raise e))
           | (evs, Inr stem) \<Rightarrow>
               (let call = Call_predict image_paths batch_size topn stem True in
                case predict w image_paths batch_size topn stem True of
                  Some e \<Rightarrow> (init # evs @ [call], Inl (Raise e))
                | None \<Rightarrow> (init # evs @ [call], Inr ()))))"

text \<open>The part of the \<^verbatim>\<open>try\<close> block after the images have been found (lines 176 to
  235).\<close>

definition run_pipeline ::
  "world \<Rightarrow> args \<Rightarrow> yaml \<Rightarrow> string list \<Rightarrow> path \<Rightarrow> string list \<Rightarrow> event list \<times> (signal + unit)"
where
  "run_pipeline w a cfg labels folder image_paths =
     step (subscript cfg ''detector_path'') (\<lambda>detector_path.
     step (subscript cfg ''classifier_path'') (\<lambda>classifier_path.
     step (get cfg ''classifier_base'' (YStr ''tf_efficientnet_b5.ns_jft_in1k'')) (\<lambda>classifier_base.
     step (get cfg ''detection_threshold'' (YFloat 0x3FB999999999999A)) (\<lambda>detection_threshold.
     step (get cfg ''classification_threshold'' (YFloat 0x3FE0000000000000))
       (\<lambda>classification_threshold.
     step (get cfg ''classification_batch_size'' (YInt 4)) (\<lambda>batch_size.
     step (get cfg ''topn'' (YInt 1)) (\<lambda>topn.
     step (determine_output_name (output_override a) cfg) (\<lambda>requested.
     invoke_pipeline w detector_path classifier_path labels classifier_base detection_threshold
       classification_threshold batch_size topn requested folder image_paths))))))))"

text \<open>The \<^verbatim>\<open>try\<close> block (lines 152 to 235).\<close>

definition main_try :: "world \<Rightarrow> args \<Rightarrow> event list \<times> (signal + unit)" where
  "main_try w a =
     step (load_config w (config a)) (\<lambda>cfg.
     step (subscript cfg ''label_path'') (\<lambda>label_path.
     step (load_labels w label_path) (\<lambda>labels.
       (let folder = parse_parts (image_folder a) in
        step (exists w folder) (\<lambda>found.
        if \<not> found
        then ([], Inl (Raise (FileNotFoundError (''Image folder not found: '' @ image_folder a))))
        else
          step (is_dir w folder) (\<lambda>directory.
          if \<not> directory
          then ([], Inl (Raise (ValueError (''Not a directory: '' @ image_folder a))))
          else
            step (get_all_image_paths w (path_str folder)) (\<lambda>image_paths.
              if image_paths = []
              then ([LogRecord WARNING False
                       ''No images found! Supported formats: .jpg, .jpeg, .png''],
                    Inl (SystemExit 0))
              else run_pipeline w a cfg labels folder image_paths)))))))"

text \<open>\<^verbatim>\<open>str(e)\<close> and the three \<^verbatim>\<open>except\<close> clauses (lines 237 to 245): the record
  logged and the exit status.\<close>

fun exn_str :: "exn \<Rightarrow> string" where
  "exn_str (FileNotFoundError m) = m"
| "exn_str (ValueError m) = m"
| "exn_str (KeyError m) = m"
| "exn_str (TypeError m) = m"
| "exn_str (AttributeError m) = m"
| "exn_str (YAMLError m) = m"
| "exn_str (OtherException m) = m"

fun handler :: "exn \<Rightarrow> event \<times> nat" where
  "handler (FileNotFoundError m) = (LogRecord ERROR False (''File not found: '' @ m), 1)"
| "handler (ValueError m) = (LogRecord ERROR False (''Configuration error: '' @ m), 1)"
| "handler e = (LogRecord ERROR True (''Unexpected error: '' @ exn_str e), 1)"

text \<open>The \<^verbatim>\<open>try\<close> statement of \<^verbatim>\<open>main\<close> (lines 151 to 245), entered once the command
  line is parsed and logging is set up: its trace and the exit status of the process.\<close>

definition main :: "world \<Rightarrow> args \<Rightarrow> event list \<times> nat" where
  "main w a =
     (case main_try w a of
        (evs, Inr u) \<Rightarrow> (evs, 0)
      | (evs, Inl (SystemExit n)) \<Rightarrow> (evs, n)
      | (evs, Inl (Raise e)) \<Rightarrow> (evs @ [fst (handler e)], snd (handler e)))"

text \<open>
  \<^verbatim>\<open>setup_logging()\<close> (lines 22 to 55), called with no argument: the only step that
  can fail is the opening of the log file \<^verbatim>\<open>inference_<timestamp>.log\<close>.
\<close>

definition setup_logging :: "world \<Rightarrow> exn option" where
  "setup_logging w = FileHandler w (''inference_'' @ timestamp w @ ''.log'')"

text \<open>
  \<^verbatim>\<open>main()\<close> from line 149 on: \<^verbatim>\<open>setup_logging\<close> is called before the \<^verbatim>\<open>try\<close>
  statement, so an exception it raises reaches no handler: the interpreter prints the
  traceback and the process ends with status 1.
\<close>

definition script :: "world \<Rightarrow> args \<Rightarrow> event list \<times> nat" where
  "script w a = (case setup_logging w of Some e \<Rightarrow> ([Uncaught e], 1) | None \<Rightarrow> main w a)"

text \<open>The events of a trace that are calls of the pipeline's \<^verbatim>\<open>predict\<close>.\<close>

definition is_predict :: "event \<Rightarrow> bool" where
  "is_predict ev =
     (case ev of Call_predict inp clas_bs topn out show_progress \<Rightarrow> True | _ \<Rightarrow> False)"

section \<open>Example runs\<close>

text \<open>
  A folder \<^verbatim>\<open>imgs\<close> with two images, a configuration file naming the two models and
  the label file, a label file with a comment, a blank line and a repeated label, and
  a folder \<^verbatim>\<open>locked\<close> that may not be searched, so that \<^verbatim>\<open>os.stat\<close> raises
  \<^verbatim>\<open>PermissionError\<close> on a path inside it. \<open>example_safe_load\<close> is what
  \<^verbatim>\<open>yaml.safe_load\<close> answers on the configuration documents of the examples: a mapping
  for a document of \<open>key: value\<close> lines, and the parser's error (its message abridged)
  for a document that ends inside a flow sequence. The log file opens, and every other
  collaborator returns normally.
\<close>

definition example_config :: yaml where
  "example_config =
     YMap [(YStr ''detector_path'', YStr ''md.pt''),
           (YStr ''classifier_path'', YStr ''awc.pth''),
           (YStr ''label_path'', YStr ''labels.txt'')]"

definition example_safe_load :: "string \<Rightarrow> exn + yaml" where
  "example_safe_load t =
     (if t = ''detector_path: md.pt\<newline>classifier_path: awc.pth\<newline>label_path: labels.txt\<newline>''
      then Inr example_config
      else if t = ''detector_path: md.pt\<newline>''
      then Inr (YMap [(YStr ''detector_path'', YStr ''md.pt'')])
      else if t = ''detector_path: md.pt\<newline>classifier_path: awc.pth\<newline>''
      then Inr (YMap [(YStr ''detector_path'', YStr ''md.pt''),
                      (YStr ''classifier_path'', YStr ''awc.pth'')])
      else if t = ''detector_path: md.pt\<newline>classifier_path: awc.pth\<newline>label_path: nolabels.txt\<newline>''
      then Inr (YMap [(YStr ''detector_path'', YStr ''md.pt''),
                      (YStr ''classifier_path'', YStr ''awc.pth''),
                      (YStr ''label_path'', YStr ''nolabels.txt'')])
      else Inl (YAMLError ''while parsing a flow node''))"

text \<open>The files of the examples, for a given content of \<^verbatim>\<open>config.yaml\<close> and of
  \<^verbatim>\<open>labels.txt\<close>.\<close>

definition example_files :: "string \<Rightarrow> string \<Rightarrow> string \<Rightarrow> exn + string" where
  "example_files config_text labels_text s =
     (if s = ''config.yaml'' then Inr config_text
      else if s = ''labels.txt'' then Inr labels_text
      else Inl (FileNotFoundError s))"

definition example_world :: world where
  "example_world =
     \<lparr>timestamp = ''20240131_093000'',
      FileHandler = (\<lambda>log_file. None),
      stat = (\<lambda>s. if s = ''config.yaml'' \<or> s = ''labels.txt'' then Some File
                  else if s = ''imgs'' then Some Dir else None),
      stat_failure =
        (\<lambda>s. if s = ''locked/config.yaml''
             then Some (OtherException (''[Errno 13] Permission denied: ''
                                          @ quote ''locked/config.yaml''))
             else None),
      read_text = example_files
        ''detector_path: md.pt\<newline>classifier_path: awc.pth\<newline>label_path: labels.txt\<newline>''
        ''# species\<newline>koala\<newline>\<newline>  dingo \<newline>koala\<newline>'',
      safe_load = example_safe_load,
      get_all_image_paths = (\<lambda>s. Inr [''imgs/a.jpg'', ''imgs/b.png'']),
      DetectAndClassify = (\<lambda>detector_path classifier_path label_names classifier_base
                            detection_threshold clas_threshold. None),
      predict = (\<lambda>inp clas_bs topn out show_progress. None),
      mkdir = (\<lambda>p parents exist_ok. None)\<rparr>"

definition example_args :: args where
  "example_args = \<lparr>image_folder = ''imgs'', config = ''config.yaml'', output_override = None\<rparr>"

text \<open>The same run with a configuration that lacks \<^verbatim>\<open>classifier_path\<close>, that lacks
  \<^verbatim>\<open>label_path\<close>, that names a label file which is not there, and with a
  configuration file that is not valid YAML.\<close>

definition world_without_classifier_path :: world where
  "world_without_classifier_path =
     example_world\<lparr>read_text := example_files ''detector_path: md.pt\<newline>''
       ''# species\<newline>koala\<newline>\<newline>  dingo \<newline>koala\<newline>''\<rparr>"

definition world_without_label_path :: world where
  "world_without_label_path =
     example_world\<lparr>read_text := example_files
       ''detector_path: md.pt\<newline>classifier_path: awc.pth\<newline>''
       ''# species\<newline>koala\<newline>\<newline>  dingo \<newline>koala\<newline>''\<rparr>"

definition world_without_label_file :: world where
  "world_without_label_file =
     example_world\<lparr>read_text := example_files
       ''detector_path: md.pt\<newline>classifier_path: awc.pth\<newline>label_path: nolabels.txt\<newline>''
       ''# species\<newline>koala\<newline>\<newline>  dingo \<newline>koala\<newline>''\<rparr>"

definition world_malformed_config :: world where
  "world_malformed_config =
     example_world\<lparr>read_text := example_files ''detector_path: [''
       ''# species\<newline>koala\<newline>\<newline>  dingo \<newline>koala\<newline>''\<rparr>"

text \<open>The same run with a label file of comments and blank lines only, and with a folder
  that holds no image.\<close>

definition world_comment_labels :: world where
  "world_comment_labels =
     example_world\<lparr>read_text := example_files
       ''detector_path: md.pt\<newline>classifier_path: awc.pth\<newline>label_path: labels.txt\<newline>''
       ''# species\<newline>\<newline>   # none yet\<newline>''\<rparr>"

definition world_no_images :: world where
  "world_no_images = example_world\<lparr>get_all_image_paths := (\<lambda>s. Inr [])\<rparr>"

text \<open>The same run started in a directory where the log file cannot be created.\<close>

definition world_log_unwritable :: world where
  "world_log_unwritable =
     example_world\<lparr>FileHandler :=
       (\<lambda>log_file. Some (OtherException (''[Errno 13] Permission denied: ''
                                             @ quote (''/work/'' @ log_file))))\<rparr>"

section \<open>Lemmas on paths\<close>

lemma rfind_dot_None: "rfind_dot s = None \<longleftrightarrow> CHR ''.'' \<notin> set s"
  by (induction s) (auto split: option.splits)

lemma rfind_dot_Some:
  "rfind_dot s = Some i \<Longrightarrow>
     i < length s \<and> s ! i = CHR ''.'' \<and> CHR ''.'' \<notin> set (drop (Suc i) s)"
proof (induction s arbitrary: i)
  case Nil
  then show ?case by simp
next
  case (Cons c cs)
  show ?case
  proof (cases "rfind_dot cs")
    case None
    with Cons.prems have "c = CHR ''.''" and "i = 0"
      by (auto split: if_splits)
    moreover from None have "CHR ''.'' \<notin> set cs"
      by (simp add: rfind_dot_None)
    ultimately show ?thesis by simp
  next
    case (Some j)
    with Cons.prems have "i = Suc j" by simp
    with Cons.IH [OF Some] show ?thesis by simp
  qed
qed

text \<open>The suffix is empty, or a dot followed by at least one character, none a dot; and
  it is the end of the name.\<close>

lemma suffix_shape:
  "suffix p = [] \<or>
   (hd (suffix p) = CHR ''.'' \<and> tl (suffix p) \<noteq> [] \<and> CHR ''.'' \<notin> set (tl (suffix p)))"
proof (cases "rfind_dot (name p)")
  case None
  then show ?thesis by (simp add: suffix_def)
next
  case (Some i)
  note facts = rfind_dot_Some [OF Some]
  show ?thesis
  proof (cases "0 < i \<and> i < length (name p) - 1")
    case False
    with Some show ?thesis by (auto simp: suffix_def)
  next
    case True
    then have eq: "suffix p = drop i (name p)"
      using Some by (simp add: suffix_def)
    from facts have "drop i (name p) = CHR ''.'' # drop (Suc i) (name p)"
      by (metis Cons_nth_drop_Suc)
    moreover from True have "drop (Suc i) (name p) \<noteq> []" by (simp add: not_le) arith
    ultimately show ?thesis using facts eq by simp
  qed
qed

lemma suffix_is_end:
  "take (length (name p) - length (suffix p)) (name p) @ suffix p = name p"
proof (cases "rfind_dot (name p)")
  case None
  then show ?thesis by (simp add: suffix_def)
next
  case (Some i)
  then have "i < length (name p)" using rfind_dot_Some by blast
  then show ?thesis using Some by (simp add: suffix_def)
qed

lemma stem_nonempty:
  "name p \<noteq> [] \<Longrightarrow> take (length (name p) - length (suffix p)) (name p) \<noteq> []"
proof (cases "rfind_dot (name p)")
  case None
  assume "name p \<noteq> []"
  with None show ?thesis by (simp add: suffix_def)
next
  case (Some i)
  assume "name p \<noteq> []"
  moreover have "i < length (name p)" using Some rfind_dot_Some by blast
  ultimately show ?thesis using Some by (auto simp: suffix_def)
qed

lemma split_no_sep: "x \<in> set (split c s) \<Longrightarrow> c \<notin> set x"
  by (induction s arbitrary: x) (auto split: if_splits list.splits)

lemma split_no_sep_id: "c \<notin> set s \<Longrightarrow> split c s = [s]"
  by (induction s) auto

lemma split_append_sep: "c \<notin> set x \<Longrightarrow> split c (x @ c # r) = x # split c r"
  by (induction x) auto

lemma root_parse_parts: "root (parse_parts s) \<in> {[], ''/'', ''//''}"
  by (auto simp: parse_parts_def splitroot_def Let_def split: prod.splits if_splits)

lemma parts_parse_parts:
  "\<exists>tail. parts (parse_parts s) =
            (if root (parse_parts s) \<noteq> [] then [root (parse_parts s)] else []) @ tail
          \<and> (\<forall>x \<in> set tail. x \<noteq> [] \<and> x \<noteq> ''.'' \<and> CHR ''/'' \<notin> set x)"
  by (auto simp: parse_parts_def Let_def split_no_sep split: prod.splits)

lemma parse_parts_bare:
  assumes "CHR ''/'' \<notin> set s" and "s \<noteq> []" and "s \<noteq> ''.''"
  shows "parse_parts s = \<lparr>root = [], parts = [s]\<rparr>"
proof -
  from assms have "hd s \<noteq> CHR ''/''"
    by (cases s) auto
  then have "splitroot s = ([], s)" by (simp add: splitroot_def)
  with assms show ?thesis by (simp add: parse_parts_def)
qed

lemma with_suffix_empty_Inr:
  "name p \<noteq> [] \<Longrightarrow>
     with_suffix_empty p =
       Inr (p\<lparr>parts := butlast (parts p)
                 @ [take (length (name p) - length (suffix p)) (name p)]\<rparr>)"
  by (simp add: with_suffix_empty_def Let_def)

lemma truediv_component:
  assumes "CHR ''/'' \<notin> set x" and "x \<noteq> []" and "x \<noteq> ''.''"
  shows "truediv folder x = \<lparr>root = root folder, parts = parts folder @ [x]\<rparr>"
  using assms by (simp add: truediv_def join_parsed_parts_def parse_parts_bare)

lemma resolve_bare:
  assumes "CHR ''/'' \<notin> set s" and "s \<noteq> []" and "s \<noteq> ''.''"
  shows "\<exists>foo. foo @ suffix (parse_parts s) = s \<and> foo \<noteq> [] \<and> CHR ''/'' \<notin> set foo
           \<and> (\<forall>folder. resolve_output_stem w (YStr s) folder
                 = ([], Inr (path_str (truediv folder foo))))"
proof -
  let ?p = "parse_parts s"
  let ?foo = "take (length (name ?p) - length (suffix ?p)) (name ?p)"
  have p: "?p = \<lparr>root = [], parts = [s]\<rparr>"
    using assms by (rule parse_parts_bare)
  then have n: "name ?p = s" by (simp add: name_def)
  with assms have ws: "with_suffix_empty ?p = Inr (?p\<lparr>parts := [?foo]\<rparr>)"
    using with_suffix_empty_Inr [of ?p] p by simp
  have "?foo @ suffix ?p = s" using suffix_is_end [of ?p] n by simp
  moreover have "?foo \<noteq> []" using stem_nonempty [of ?p] n assms by simp
  moreover have "CHR ''/'' \<notin> set ?foo"
    using assms(1) n by (auto dest: in_set_takeD)
  moreover have "resolve_output_stem w (YStr s) folder
                   = ([], Inr (path_str (truediv folder ?foo)))" for folder
    using ws p by (simp add: resolve_output_stem_def parent_def path_str_def
        format_parsed_parts_def name_def)
  ultimately show ?thesis by blast
qed

lemma join_not_dot:
  assumes "xs \<noteq> []" and "\<forall>x \<in> set xs. x \<noteq> [] \<and> x \<noteq> ''.''"
  shows "join ''/'' xs \<noteq> [] \<and> join ''/'' xs \<noteq> ''.''"
proof (cases xs)
  case Nil
  with assms show ?thesis by simp
next
  case (Cons x ys)
  show ?thesis
  proof (cases ys)
    case Nil
    with Cons assms show ?thesis by simp
  next
    case (Cons y zs)
    then have "join ''/'' xs = x @ ''/'' @ join ''/'' ys"
      using \<open>xs = x # ys\<close> by simp
    moreover have "x \<noteq> []" using assms \<open>xs = x # ys\<close> by simp
    ultimately show ?thesis by (cases x) auto
  qed
qed

lemma parent_not_dot:
  assumes "name (parse_parts s) \<noteq> []"
    and "root (parse_parts s) \<noteq> [] \<or> 2 \<le> length (parts (parse_parts s))"
  shows "path_str (parent (parse_parts s)) \<noteq> ''.''"
proof -
  let ?p = "parse_parts s"
  obtain tail where tail: "parts ?p = (if root ?p \<noteq> [] then [root ?p] else []) @ tail"
    and good: "\<forall>x \<in> set tail. x \<noteq> [] \<and> x \<noteq> ''.'' \<and> CHR ''/'' \<notin> set x"
    using parts_parse_parts by blast
  show ?thesis
  proof (cases "root ?p = []")
    case False
    then have "hd (root ?p) = CHR ''/''"
      using root_parse_parts [of s] by auto
    with False have "hd (format_parsed_parts (parent ?p)) = CHR ''/''"
      by (simp add: format_parsed_parts_def parent_def)
    moreover have "format_parsed_parts (parent ?p) \<noteq> []"
      using False by (simp add: format_parsed_parts_def parent_def)
    ultimately show ?thesis
      by (auto simp: path_str_def)
  next
    case True
    with assms(2) tail have len: "2 \<le> length tail" by simp
    then have ne: "butlast tail \<noteq> []"
      by (cases tail rule: rev_cases) auto
    have "\<forall>x \<in> set (butlast tail). x \<noteq> [] \<and> x \<noteq> ''.''"
      using good by (auto dest: in_set_butlastD)
    from join_not_dot [OF ne this] show ?thesis
      using True tail by (simp add: path_str_def format_parsed_parts_def parent_def)
  qed
qed

lemma with_suffix_empty_parse:
  assumes "name (parse_parts s) \<noteq> []"
  shows "\<exists>q. with_suffix_empty (parse_parts s) = Inr q
           \<and> root q = root (parse_parts s)
           \<and> butlast (parts q) = butlast (parts (parse_parts s))
           \<and> name q @ suffix (parse_parts s) = name (parse_parts s)
           \<and> parent q = parent (parse_parts s)"
proof -
  let ?p = "parse_parts s"
  let ?foo = "take (length (name ?p) - length (suffix ?p)) (name ?p)"
  let ?q = "?p\<lparr>parts := butlast (parts ?p) @ [?foo]\<rparr>"
  have ws: "with_suffix_empty ?p = Inr ?q"
    using assms by (rule with_suffix_empty_Inr)
  have len: "length (parts ?p) \<noteq> (if root ?p \<noteq> [] then 1 else 0)"
    using assms by (auto simp: name_def split: if_splits)
  have pne: "parts ?p \<noteq> []"
    using len parts_parse_parts [of s] by (auto split: if_splits)
  have par: "parent ?q = parent ?p"
    using len pne by (auto simp: parent_def split: if_splits)
  have nq: "name ?q = ?foo"
    using len pne by (auto simp: name_def split: if_splits)
  have "name ?q @ suffix ?p = name ?p"
    using nq suffix_is_end [of ?p] by simp
  with ws par show ?thesis by auto
qed

lemma resolve_explicit:
  assumes "name (parse_parts s) \<noteq> []"
    and "root (parse_parts s) \<noteq> [] \<or> 2 \<le> length (parts (parse_parts s))"
  shows "\<exists>q. with_suffix_empty (parse_parts s) = Inr q
           \<and> root q = root (parse_parts s)
           \<and> butlast (parts q) = butlast (parts (parse_parts s))
           \<and> name q @ suffix (parse_parts s) = name (parse_parts s)
           \<and> (\<forall>folder. resolve_output_stem w (YStr s) folder
                 = ([Call_mkdir (path_str (parent (parse_parts s))) True True],
                    (case mkdir w (path_str (parent (parse_parts s))) True True of
                       Some e \<Rightarrow> Inl e
                     | None \<Rightarrow> Inr (path_str q))))"
proof -
  from with_suffix_empty_parse [OF assms(1)] obtain q
    where ws: "with_suffix_empty (parse_parts s) = Inr q"
      and q: "root q = root (parse_parts s)"
             "butlast (parts q) = butlast (parts (parse_parts s))"
             "name q @ suffix (parse_parts s) = name (parse_parts s)"
      and par: "parent q = parent (parse_parts s)"
    by blast
  have "resolve_output_stem w (YStr s) folder
       = ([Call_mkdir (path_str (parent (parse_parts s))) True True],
          (case mkdir w (path_str (parent (parse_parts s))) True True of
             Some e \<Rightarrow> Inl e | None \<Rightarrow> Inr (path_str q)))" for folder
    using ws par parent_not_dot [OF assms]
    by (simp add: resolve_output_stem_def split: option.splits)
  with ws q show ?thesis by blast
qed

lemma split_join_aux:
  "sep = [c] \<Longrightarrow> xs \<noteq> [] \<Longrightarrow> \<forall>x \<in> set xs. c \<notin> set x \<Longrightarrow> split c (join sep xs) = xs"
proof (induction sep xs rule: join.induct)
  case (3 sep x y ys)
  then show ?case by (simp add: split_append_sep)
qed (simp_all add: split_no_sep_id)

lemma split_join:
  assumes "xs \<noteq> []" and "\<forall>x \<in> set xs. c \<notin> set x"
  shows "split c (join [c] xs) = xs"
  using assms by (simp add: split_join_aux)

lemma join_nonempty:
  "xs \<noteq> [] \<Longrightarrow> hd xs \<noteq> [] \<Longrightarrow> join sep xs \<noteq> [] \<and> hd (join sep xs) = hd (hd xs)"
  by (induction sep xs rule: join.induct) auto

lemma parse_parts_join:
  assumes "xs \<noteq> []"
    and "\<forall>x \<in> set xs. x \<noteq> [] \<and> x \<noteq> ''.'' \<and> CHR ''/'' \<notin> set x"
  shows "parse_parts (join ''/'' xs) = \<lparr>root = [], parts = xs\<rparr>"
proof -
  let ?s = "join ''/'' xs"
  have hd: "hd xs \<noteq> []" "CHR ''/'' \<notin> set (hd xs)"
    using assms by (cases xs; simp)+
  then have ne: "?s \<noteq> []" and "hd ?s = hd (hd xs)"
    using join_nonempty [OF assms(1), of "''/''"] by simp_all
  then have "hd ?s \<noteq> CHR ''/''"
    using hd by (cases "hd xs") auto
  then have sr: "splitroot ?s = ([], ?s)" by (simp add: splitroot_def)
  have sp: "split (CHR ''/'') ?s = xs"
    using split_join [OF assms(1), of "CHR ''/''"] assms(2) by simp
  show ?thesis
  proof (cases "CHR ''/'' \<in> set ?s")
    case True
    have "filter (\<lambda>x. x \<noteq> [] \<and> x \<noteq> ''.'') xs = xs"
      using assms(2) by (simp add: filter_id_conv)
    with True sr sp ne show ?thesis by (simp add: parse_parts_def)
  next
    case False
    then have "split (CHR ''/'') ?s = [?s]" by (rule split_no_sep_id)
    with sp have "xs = [?s]" by simp
    moreover from this assms(2) have "?s \<noteq> ''.''" by (metis list.set_intros(1))
    ultimately show ?thesis using False sr ne by (simp add: parse_parts_def)
  qed
qed

lemma path_str_relative:
  assumes "xs \<noteq> []" and "hd xs \<noteq> []"
  shows "path_str \<lparr>root = [], parts = xs\<rparr> = join ''/'' xs"
  using join_nonempty [OF assms, of "''/''"]
  by (simp add: path_str_def format_parsed_parts_def)

lemma join_snoc: "xs \<noteq> [] \<Longrightarrow> join sep (xs @ [x]) = join sep xs @ sep @ x"
  by (induction sep xs rule: join.induct) simp_all

lemma stem_under_normal_folder:
  assumes "rs \<noteq> []"
    and "\<forall>x \<in> set rs. x \<noteq> [] \<and> x \<noteq> ''.'' \<and> CHR ''/'' \<notin> set x"
    and "CHR ''/'' \<notin> set foo" and "foo \<noteq> []" and "foo \<noteq> ''.''"
  shows "path_str (truediv (parse_parts (join ''/'' rs)) foo) = join ''/'' rs @ ''/'' @ foo"
proof -
  have "truediv (parse_parts (join ''/'' rs)) foo = \<lparr>root = [], parts = rs @ [foo]\<rparr>"
    using assms by (simp add: parse_parts_join truediv_component)
  moreover have "hd (rs @ [foo]) \<noteq> []"
    using assms(1,2) by (cases rs) auto
  ultimately show ?thesis
    using assms(1) path_str_relative [of "rs @ [foo]"] by (simp add: join_snoc)
qed

lemma resolve_normal_relative:
  assumes "dirs \<noteq> []"
    and "\<forall>x \<in> set (dirs @ [fname]). x \<noteq> [] \<and> x \<noteq> ''.'' \<and> CHR ''/'' \<notin> set x"
  shows "\<exists>foo. foo @ suffix (parse_parts (join ''/'' (dirs @ [fname]))) = fname
           \<and> (\<forall>folder. resolve_output_stem w (YStr (join ''/'' (dirs @ [fname]))) folder
                 = ([Call_mkdir (join ''/'' dirs) True True],
                    (case mkdir w (join ''/'' dirs) True True of
                       Some e \<Rightarrow> Inl e
                     | None \<Rightarrow> Inr (join ''/'' (dirs @ [foo])))))"
proof -
  let ?s = "join ''/'' (dirs @ [fname])"
  let ?p = "parse_parts ?s"
  let ?foo = "take (length fname - length (suffix ?p)) fname"
  have p: "?p = \<lparr>root = [], parts = dirs @ [fname]\<rparr>"
    using assms(2) by (intro parse_parts_join) simp_all
  then have n: "name ?p = fname" by (simp add: name_def)
  have fne: "fname \<noteq> []" using assms(2) by simp
  have ws: "with_suffix_empty ?p = Inr \<lparr>root = [], parts = dirs @ [?foo]\<rparr>"
    using with_suffix_empty_Inr [of ?p] n fne p by simp
  have hd: "hd dirs \<noteq> []" using assms by (cases dirs) auto
  have par: "path_str (parent \<lparr>root = [], parts = dirs @ [?foo]\<rparr>) = join ''/'' dirs"
    using path_str_relative [OF assms(1) hd] by (simp add: parent_def)
  have nd: "join ''/'' dirs \<noteq> ''.''"
    using join_not_dot [OF assms(1)] assms(2) by simp
  have st: "path_str \<lparr>root = [], parts = dirs @ [?foo]\<rparr> = join ''/'' (dirs @ [?foo])"
    using hd assms(1) by (intro path_str_relative) simp_all
  have "?foo @ suffix ?p = fname" using suffix_is_end [of ?p] n by simp
  moreover have "resolve_output_stem w (YStr ?s) folder
       = ([Call_mkdir (join ''/'' dirs) True True],
          (case mkdir w (join ''/'' dirs) True True of
             Some e \<Rightarrow> Inl e | None \<Rightarrow> Inr (join ''/'' (dirs @ [?foo]))))" for folder
    using ws par nd st by (simp add: resolve_output_stem_def split: option.splits)
  ultimately show ?thesis by blast
qed

lemma join_last:
  "join sep (tail @ [x]) = x \<or> (\<exists>pre. join sep (tail @ [x]) = pre @ sep @ x)"
proof (cases "tail = []")
  case True
  then show ?thesis by simp
next
  case False
  then show ?thesis by (auto simp: join_snoc)
qed

text \<open>The string of a path is its final component, or ends with \<open>/\<close> and that
  component.\<close>

lemma path_str_final_component:
  assumes "root st \<in> {[], ''/'', ''//''}"
    and "parts st = (if root st \<noteq> [] then [root st] else []) @ tail @ [x]"
    and "x \<noteq> []"
  shows "path_str st = x \<or> (\<exists>pre. path_str st = pre @ ''/'' @ x)"
proof -
  from join_last [of "''/''" tail x]
  consider "join ''/'' (tail @ [x]) = x"
    | pre where "join ''/'' (tail @ [x]) = pre @ ''/'' @ x"
    by blast
  then show ?thesis
  proof cases
    case 1
    show ?thesis
    proof (cases "root st = []")
      case True
      with 1 assms show ?thesis by (simp add: path_str_def format_parsed_parts_def)
    next
      case False
      with assms(1) consider "root st = ''/''" | "root st = ''//''" by auto
      then show ?thesis
      proof cases
        case 1
        then have "path_str st = [] @ ''/'' @ x"
          using \<open>join ''/'' (tail @ [x]) = x\<close> assms(2)
          by (simp add: path_str_def format_parsed_parts_def)
        then show ?thesis by blast
      next
        case 2
        then have "path_str st = ''/'' @ ''/'' @ x"
          using \<open>join ''/'' (tail @ [x]) = x\<close> assms(2)
          by (simp add: path_str_def format_parsed_parts_def)
        then show ?thesis by blast
      qed
    qed
  next
    case 2
    show ?thesis
    proof (cases "root st = []")
      case True
      with 2 assms show ?thesis by (simp add: path_str_def format_parsed_parts_def)
    next
      case False
      then have "path_str st = (root st @ pre) @ ''/'' @ x"
        using 2 assms(2) by (simp add: path_str_def format_parsed_parts_def)
      then show ?thesis by blast
    qed
  qed
qed

lemma with_suffix_empty_shape:
  assumes "name (parse_parts s) \<noteq> []"
  shows "\<exists>q tail. with_suffix_empty (parse_parts s) = Inr q
           \<and> root q = root (parse_parts s)
           \<and> parts q = (if root q \<noteq> [] then [root q] else []) @ tail @ [name q]
           \<and> name q \<noteq> [] \<and> CHR ''/'' \<notin> set (name q)"
proof -
  let ?p = "parse_parts s"
  let ?foo = "take (length (name ?p) - length (suffix ?p)) (name ?p)"
  let ?q = "?p\<lparr>parts := butlast (parts ?p) @ [?foo]\<rparr>"
  have ws: "with_suffix_empty ?p = Inr ?q"
    using assms by (rule with_suffix_empty_Inr)
  obtain tl where tl: "parts ?p = (if root ?p \<noteq> [] then [root ?p] else []) @ tl"
    and good: "\<forall>x \<in> set tl. x \<noteq> [] \<and> x \<noteq> ''.'' \<and> CHR ''/'' \<notin> set x"
    using parts_parse_parts by blast
  have "tl \<noteq> []"
    using assms tl by (auto simp: name_def split: if_splits)
  then have tl_snoc: "tl = butlast tl @ [last tl]" by simp
  have np: "name ?p = last tl"
    using tl \<open>tl \<noteq> []\<close> by (auto simp: name_def split: if_splits)
  have "last tl \<in> set tl" using \<open>tl \<noteq> []\<close> by simp
  then have "CHR ''/'' \<notin> set (name ?p)" using good np by simp
  then have nosep: "CHR ''/'' \<notin> set ?foo" by (auto dest: in_set_takeD)
  have bl: "butlast (parts ?p) = (if root ?p \<noteq> [] then [root ?p] else []) @ butlast tl"
    using tl \<open>tl \<noteq> []\<close> by (simp add: butlast_append)
  have nq: "name ?q = ?foo"
    using bl by (auto simp: name_def split: if_splits)
  have pq: "parts ?q = (if root ?q \<noteq> [] then [root ?q] else []) @ butlast tl @ [name ?q]"
    using bl nq by simp
  have "name ?q \<noteq> []" using nq stem_nonempty [OF assms] by simp
  with ws pq nosep nq show ?thesis
    by (intro exI [of _ ?q] exI [of _ "butlast tl"]) simp
qed

lemma truediv_dot: "truediv folder ''.'' = folder"
  by (simp add: truediv_def join_parsed_parts_def parse_parts_def splitroot_def)

lemma stem_under_folder_component:
  assumes "x \<noteq> []" and "x \<noteq> ''.''" and "CHR ''/'' \<notin> set x"
  shows "path_str (truediv (parse_parts r) x) = x
         \<or> (\<exists>pre. path_str (truediv (parse_parts r) x) = pre @ ''/'' @ x)"
proof -
  obtain tl where tl: "parts (parse_parts r)
                         = (if root (parse_parts r) \<noteq> [] then [root (parse_parts r)] else []) @ tl"
    using parts_parse_parts by blast
  have td: "truediv (parse_parts r) x
              = \<lparr>root = root (parse_parts r), parts = parts (parse_parts r) @ [x]\<rparr>"
    using assms by (simp add: truediv_component)
  show ?thesis
  proof (rule path_str_final_component [where tail = tl])
    show "root (truediv (parse_parts r) x) \<in> {[], ''/'', ''//''}"
      using root_parse_parts [of r] by (simp add: td)
    show "parts (truediv (parse_parts r) x)
            = (if root (truediv (parse_parts r) x) \<noteq> []
               then [root (truediv (parse_parts r) x)] else []) @ tl @ [x]"
      using tl by (simp add: td)
    show "x \<noteq> []" by fact
  qed
qed

section \<open>Lemmas on the loaders and on a run\<close>

lemma missing_fields_required_map:
  "missing_fields required_fields (YMap m) =
     Inr (filter (\<lambda>f. YStr f \<notin> fst ` set m) [''detector_path'', ''classifier_path''])"
  by (simp add: required_fields_def)

lemma collect_labels_filter:
  "collect_labels labels ls =
     labels @ filter (\<lambda>l. l \<noteq> [] \<and> hd l \<noteq> CHR ''#'') (map strip ls)"
proof (induction ls arbitrary: labels)
  case Nil
  then show ?case by simp
next
  case (Cons line rest)
  have "startswith l ''#'' \<longleftrightarrow> (l \<noteq> [] \<and> hd l = CHR ''#'')" for l
    by (cases l) (simp_all add: startswith_def)
  then show ?case
    using Cons.IH by (simp add: Let_def)
qed

lemma strip_no_surrounding_space:
  assumes "strip s \<noteq> []"
  shows "\<not> isspace (hd (strip s)) \<and> \<not> isspace (last (strip s))"
proof -
  let ?t = "dropWhile isspace s"
  let ?u = "dropWhile isspace (rev ?t)"
  have u: "?u \<noteq> []" using assms by (simp add: strip_def)
  have t: "?t \<noteq> []"
  proof
    assume "?t = []"
    then have "?u = []" by (simp only: rev.simps dropWhile.simps)
    with u show False by blast
  qed
  have "rev ?t = takeWhile isspace (rev ?t) @ ?u" by simp
  then have "last (rev ?t) = last ?u" using u by (metis last_appendR)
  then have "last ?u = hd ?t" using t by (simp add: last_rev)
  moreover have "\<not> isspace (hd ?t)" using t by (rule hd_dropWhile)
  moreover have "\<not> isspace (hd ?u)" using u by (rule hd_dropWhile)
  ultimately show ?thesis using u by (simp add: strip_def hd_rev last_rev)
qed

lemma step_Inl: "step (Inl e) f = ([], Inl (Raise e))"
  by (simp add: step_def)

lemma step_Inr: "step (Inr v) f = f v"
  by (simp add: step_def)

lemma main_raise:
  "main_try w a = (evs, Inl (Raise e)) \<Longrightarrow> main w a = (evs @ [fst (handler e)], 1)"
  by (cases e) (simp_all add: main_def)

lemma config_file_missing:
  assumes "exists w (parse_parts (config a)) = Inr False"
  shows "main w a =
     ([LogRecord ERROR False (''File not found: Config file not found: '' @ config a)], 1)"
proof -
  have "main_try w a =
     ([], Inl (Raise (FileNotFoundError (''Config file not found: '' @ config a))))"
    using assms by (simp add: main_try_def load_config_def step_Inl)
  from main_raise [OF this] show ?thesis by simp
qed

lemma label_file_missing:
  assumes "load_config w (config a) = Inr cfg"
    and "subscript cfg ''label_path'' = Inr (YStr lp)"
    and "exists w (parse_parts lp) = Inr False"
  shows "main w a =
     ([LogRecord ERROR False (''File not found: Labels file not found: '' @ lp)], 1)"
proof -
  have "main_try w a = ([], Inl (Raise (FileNotFoundError (''Labels file not found: '' @ lp))))"
    using assms by (simp add: main_try_def load_labels_def step_Inl step_Inr)
  from main_raise [OF this] show ?thesis by simp
qed

lemma image_folder_missing:
  assumes "load_config w (config a) = Inr cfg"
    and "subscript cfg ''label_path'' = Inr label_path"
    and "load_labels w label_path = Inr labels"
    and "exists w (parse_parts (image_folder a)) = Inr False"
  shows "main w a =
     ([LogRecord ERROR False (''File not found: Image folder not found: '' @ image_folder a)], 1)"
proof -
  have "main_try w a =
     ([], Inl (Raise (FileNotFoundError (''Image folder not found: '' @ image_folder a))))"
    using assms by (simp add: main_try_def step_Inr)
  from main_raise [OF this] show ?thesis by simp
qed

lemma image_folder_not_a_directory:
  assumes "load_config w (config a) = Inr cfg"
    and "subscript cfg ''label_path'' = Inr label_path"
    and "load_labels w label_path = Inr labels"
    and "stat w (path_str (parse_parts (image_folder a))) = Some File"
  shows "main w a =
     ([LogRecord ERROR False (''Configuration error: Not a directory: '' @ image_folder a)], 1)"
proof -
  have "main_try w a = ([], Inl (Raise (ValueError (''Not a directory: '' @ image_folder a))))"
    using assms by (simp add: main_try_def step_Inr exists_def is_dir_def)
  from main_raise [OF this] show ?thesis by simp
qed

lemma malformed_document:
  assumes "exists w (parse_parts (config a)) = Inr True"
    and "read_text w (path_str (parse_parts (config a))) = Inr text"
    and "safe_load w text = Inl (YAMLError m)"
  shows "main w a = ([LogRecord ERROR True (''Unexpected error: '' @ m)], 1)"
proof -
  have "main_try w a = ([], Inl (Raise (YAMLError m)))"
    using assms by (simp add: main_try_def load_config_def step_Inl)
  from main_raise [OF this] show ?thesis by simp
qed

lemma handler_classes:
  assumes "main_try w a = (evs, Inl (Raise e))"
  shows "(\<forall>m. e = FileNotFoundError m \<longrightarrow>
            main w a = (evs @ [LogRecord ERROR False (''File not found: '' @ m)], 1))
       \<and> (\<forall>m. e = ValueError m \<longrightarrow>
            main w a = (evs @ [LogRecord ERROR False (''Configuration error: '' @ m)], 1))
       \<and> ((\<forall>m. e \<noteq> FileNotFoundError m \<and> e \<noteq> ValueError m) \<longrightarrow>
            main w a = (evs @ [LogRecord ERROR True (''Unexpected error: '' @ exn_str e)], 1))"
  using main_raise [OF assms] by (cases e) simp_all

lemma required_field_missing_message:
  assumes "exists w (parse_parts (config a)) = Inr True"
    and "read_text w (path_str (parse_parts (config a))) = Inr text"
    and "safe_load w text = Inr (YMap m)"
    and "YStr ''detector_path'' \<notin> fst ` set m \<or> YStr ''classifier_path'' \<notin> fst ` set m"
  shows "main w a =
     ([LogRecord ERROR False
         (''Configuration error: Missing required config fields: ''
            @ join '', '' (filter (\<lambda>f. YStr f \<notin> fst ` set m)
                             [''detector_path'', ''classifier_path'']))], 1)"
proof -
  let ?missing = "filter (\<lambda>f. YStr f \<notin> fst ` set m) [''detector_path'', ''classifier_path'']"
  have "?missing \<noteq> []" using assms(4) by auto
  then have "load_config w (config a)
          = Inl (ValueError (''Missing required config fields: '' @ join '', '' ?missing))"
    using assms(1-3) by (simp add: load_config_def missing_fields_required_map)
  then have
    "main_try w a
       = ([], Inl (Raise (ValueError (''Missing required config fields: '' @ join '', '' ?missing))))"
    by (simp add: main_try_def step_Inl)
  from main_raise [OF this] show ?thesis by simp
qed

lemma config_stat_fails:
  assumes "exists w (parse_parts (config a)) = Inl e"
  shows "main_try w a = ([], Inl (Raise e))"
  using assms by (simp add: main_try_def load_config_def step_Inl)

lemma script_cases:
  "(setup_logging w = None \<longrightarrow> script w a = main w a)
   \<and> (setup_logging w = Some e \<longrightarrow> script w a = ([Uncaught e], 1))"
  by (simp add: script_def)

lemma resolve_no_predict: "filter is_predict (fst (resolve_output_stem w r f)) = []"
  by (auto simp: resolve_output_stem_def is_predict_def split: sum.splits option.splits)

lemma invoke_pipeline_predict_once:
  "length (filter is_predict
     (fst (invoke_pipeline w d c labels cb dt ct bs tn requested folder image_paths))) \<le> 1"
proof (cases "resolve_output_stem w requested folder")
  case (Pair evs r)
  then have "filter is_predict evs = []"
    using resolve_no_predict [of w requested folder] by simp
  with Pair show ?thesis
    by (cases r) (auto simp: invoke_pipeline_def Let_def is_predict_def split: option.splits)
qed

lemma step_predict_once:
  "(\<And>v. length (filter is_predict (fst (f v))) \<le> 1)
     \<Longrightarrow> length (filter is_predict (fst (step r f))) \<le> 1"
  by (cases r) (simp_all add: step_def)

lemma run_pipeline_predict_once:
  "length (filter is_predict (fst (run_pipeline w a cfg labels folder image_paths))) \<le> 1"
  unfolding run_pipeline_def
  by (intro step_predict_once invoke_pipeline_predict_once)

lemma if_predict_once:
  "length (filter is_predict (fst x)) \<le> 1 \<Longrightarrow> length (filter is_predict (fst y)) \<le> 1
     \<Longrightarrow> length (filter is_predict (fst (if c then x else y))) \<le> 1"
  by simp

lemma raise_predict_once: "length (filter is_predict (fst ([], r))) \<le> 1"
  by simp

lemma warning_predict_once: "length (filter is_predict (fst ([LogRecord l b m], r))) \<le> 1"
  by (simp add: is_predict_def)

lemma main_try_predict_once: "length (filter is_predict (fst (main_try w a))) \<le> 1"
  unfolding main_try_def Let_def
  by (intro step_predict_once if_predict_once raise_predict_once warning_predict_once
      run_pipeline_predict_once)

lemma main_predict_once: "length (filter is_predict (fst (main w a))) \<le> 1"
proof (cases "main_try w a")
  case (Pair evs r)
  then have le: "length (filter is_predict evs) \<le> 1"
    using main_try_predict_once [of w a] by simp
  show ?thesis
  proof (cases r)
    case (Inr u)
    with Pair le show ?thesis by (simp add: main_def)
  next
    case (Inl sig)
    show ?thesis
    proof (cases sig)
      case (SystemExit n)
      with Pair Inl le show ?thesis by (simp add: main_def)
    next
      case (Raise e)
      with Pair Inl le show ?thesis
        by (cases e) (simp_all add: main_def is_predict_def)
    qed
  qed
qed

section \<open>Evaluation of the definitions on examples\<close>

lemmas path_eval =
  parse_parts_def splitroot_def path_str_def format_parsed_parts_def name_def suffix_def
  with_suffix_empty_def parent_def truediv_def join_parsed_parts_def Let_def

lemmas world_eval =
  example_world_def example_config_def example_safe_load_def example_files_def
  example_args_def world_without_classifier_path_def world_without_label_path_def
  world_without_label_file_def world_malformed_config_def world_comment_labels_def
  world_no_images_def world_log_unwritable_def exists_def is_dir_def

lemmas run_eval =
  main_def main_try_def step_def run_pipeline_def invoke_pipeline_def load_config_def
  load_labels_def resolve_output_stem_def determine_output_name_def required_fields_def
  file_lines_def strip_def isspace_def startswith_def quote_def

section \<open>Output-stem resolution\<close>

text \<open>
  Claim C1. A requested name without directory component (no \<open>/\<close>; not empty and not
  the current-directory marker, which name no file) has its last extension stripped
  and resolves under the image folder: the stem is \<open>folder / foo\<close> where \<open>foo\<close>
  followed by the extension is the name, no directory is created, and \<open>folder / foo\<close>
  is the folder's path with the component \<open>foo\<close> appended; for a relative folder
  written as components joined by \<open>/\<close> the stem is the folder's string, \<open>/\<close> and
  \<open>foo\<close>. A requested name whose
  parsed path has a final component and a root or a directory before it makes one
  call \<^verbatim>\<open>mkdir(parents=True, exist_ok=True)\<close> on the parent of the path, and then the
  stem is the path itself with the last extension of its final component stripped,
  whatever the image folder. For a relative name already written as components joined
  by \<open>/\<close>, the directory is the name without its last component and the stem is the
  name itself up to that extension.
\<close>

theorem resolve_output_stem_policy:
  "(CHR ''/'' \<notin> set s \<and> s \<noteq> [] \<and> s \<noteq> ''.'' \<longrightarrow>
      (\<exists>foo. foo @ suffix (parse_parts s) = s
         \<and> (\<forall>folder. resolve_output_stem w (YStr s) folder
               = ([], Inr (path_str (truediv folder foo))))
         \<and> (foo \<noteq> ''.'' \<longrightarrow>
               (\<forall>folder. truediv folder foo
                  = \<lparr>root = root folder, parts = parts folder @ [foo]\<rparr>)
               \<and> (\<forall>rs. rs \<noteq> [] \<and> (\<forall>x \<in> set rs. x \<noteq> [] \<and> x \<noteq> ''.'' \<and> CHR ''/'' \<notin> set x) \<longrightarrow>
                     resolve_output_stem w (YStr s) (parse_parts (join ''/'' rs))
                       = ([], Inr (join ''/'' rs @ ''/'' @ foo))))))
   \<and> (name (parse_parts s) \<noteq> []
        \<and> (root (parse_parts s) \<noteq> [] \<or> 2 \<le> length (parts (parse_parts s))) \<longrightarrow>
      (\<exists>q. with_suffix_empty (parse_parts s) = Inr q
         \<and> root q = root (parse_parts s)
         \<and> butlast (parts q) = butlast (parts (parse_parts s))
         \<and> name q @ suffix (parse_parts s) = name (parse_parts s)
         \<and> (\<forall>folder. resolve_output_stem w (YStr s) folder
               = ([Call_mkdir (path_str (parent (parse_parts s))) True True],
                  (case mkdir w (path_str (parent (parse_parts s))) True True of
                     Some e \<Rightarrow> Inl e
                   | None \<Rightarrow> Inr (path_str q))))))
   \<and> (dirs \<noteq> [] \<and> (\<forall>x \<in> set (dirs @ [fname]). x \<noteq> [] \<and> x \<noteq> ''.'' \<and> CHR ''/'' \<notin> set x) \<longrightarrow>
      (\<exists>foo. foo @ suffix (parse_parts (join ''/'' (dirs @ [fname]))) = fname
         \<and> (\<forall>folder. resolve_output_stem w (YStr (join ''/'' (dirs @ [fname]))) folder
               = ([Call_mkdir (join ''/'' dirs) True True],
                  (case mkdir w (join ''/'' dirs) True True of
                     Some e \<Rightarrow> Inl e
                   | None \<Rightarrow> Inr (join ''/'' (dirs @ [foo])))))))"
proof (intro conjI impI)
  assume "CHR ''/'' \<notin> set s \<and> s \<noteq> [] \<and> s \<noteq> ''.''"
  then obtain foo where foo: "foo @ suffix (parse_parts s) = s" "foo \<noteq> []" "CHR ''/'' \<notin> set foo"
    and res: "\<forall>folder. resolve_output_stem w (YStr s) folder
                = ([], Inr (path_str (truediv folder foo)))"
    using resolve_bare [of s w] by blast
  have "foo \<noteq> ''.'' \<longrightarrow>
          (\<forall>folder. truediv folder foo = \<lparr>root = root folder, parts = parts folder @ [foo]\<rparr>)"
    using foo by (simp add: truediv_component)
  moreover have "foo \<noteq> ''.'' \<longrightarrow>
          (\<forall>rs. rs \<noteq> [] \<and> (\<forall>x \<in> set rs. x \<noteq> [] \<and> x \<noteq> ''.'' \<and> CHR ''/'' \<notin> set x) \<longrightarrow>
                resolve_output_stem w (YStr s) (parse_parts (join ''/'' rs))
                  = ([], Inr (join ''/'' rs @ ''/'' @ foo)))"
    using foo res by (simp add: stem_under_normal_folder)
  ultimately show "\<exists>foo. foo @ suffix (parse_parts s) = s
         \<and> (\<forall>folder. resolve_output_stem w (YStr s) folder
               = ([], Inr (path_str (truediv folder foo))))
         \<and> (foo \<noteq> ''.'' \<longrightarrow>
               (\<forall>folder. truediv folder foo
                  = \<lparr>root = root folder, parts = parts folder @ [foo]\<rparr>)
               \<and> (\<forall>rs. rs \<noteq> [] \<and> (\<forall>x \<in> set rs. x \<noteq> [] \<and> x \<noteq> ''.'' \<and> CHR ''/'' \<notin> set x) \<longrightarrow>
                     resolve_output_stem w (YStr s) (parse_parts (join ''/'' rs))
                       = ([], Inr (join ''/'' rs @ ''/'' @ foo))))"
    using foo res by blast
next
  assume "name (parse_parts s) \<noteq> []
        \<and> (root (parse_parts s) \<noteq> [] \<or> 2 \<le> length (parts (parse_parts s)))"
  then show "\<exists>q. with_suffix_empty (parse_parts s) = Inr q
         \<and> root q = root (parse_parts s)
         \<and> butlast (parts q) = butlast (parts (parse_parts s))
         \<and> name q @ suffix (parse_parts s) = name (parse_parts s)
         \<and> (\<forall>folder. resolve_output_stem w (YStr s) folder
               = ([Call_mkdir (path_str (parent (parse_parts s))) True True],
                  (case mkdir w (path_str (parent (parse_parts s))) True True of
                     Some e \<Rightarrow> Inl e
                   | None \<Rightarrow> Inr (path_str q))))"
    using resolve_explicit [of s w] by blast
next
  assume "dirs \<noteq> [] \<and> (\<forall>x \<in> set (dirs @ [fname]). x \<noteq> [] \<and> x \<noteq> ''.'' \<and> CHR ''/'' \<notin> set x)"
  then show "\<exists>foo. foo @ suffix (parse_parts (join ''/'' (dirs @ [fname]))) = fname
         \<and> (\<forall>folder. resolve_output_stem w (YStr (join ''/'' (dirs @ [fname]))) folder
               = ([Call_mkdir (join ''/'' dirs) True True],
                  (case mkdir w (join ''/'' dirs) True True of
                     Some e \<Rightarrow> Inl e
                   | None \<Rightarrow> Inr (join ''/'' (dirs @ [foo])))))"
    using resolve_normal_relative [of dirs fname w] by blast
qed

theorem resolve_output_stem_policy_witness:
  "CHR ''/'' \<notin> set ''foo.csv'' \<and> ''foo.csv'' \<noteq> [] \<and> ''foo.csv'' \<noteq> ''.''
   \<and> resolve_output_stem example_world (YStr ''foo.csv'') (parse_parts ''data/imgs'')
       = ([], Inr ''data/imgs/foo'')
   \<and> name (parse_parts ''/srv/out/results'') \<noteq> [] \<and> root (parse_parts ''/srv/out/results'') \<noteq> []
   \<and> resolve_output_stem example_world (YStr ''/srv/out/results'') (parse_parts ''imgs'')
       = ([Call_mkdir ''/srv/out'' True True], Inr ''/srv/out/results'')
   \<and> [''out''] \<noteq> [] \<and> CHR ''/'' \<notin> set ''out'' \<and> CHR ''/'' \<notin> set ''results''
   \<and> resolve_output_stem example_world (YStr ''out/results'') (parse_parts ''imgs'')
       = ([Call_mkdir ''out'' True True], Inr ''out/results'')"
proof -
  note part1 = resolve_output_stem_policy
    [of "''foo.csv''" example_world "[''out'']" "''results''", THEN conjunct1, THEN mp]
  note part2 = resolve_output_stem_policy
    [of "''/srv/out/results''" example_world "[''out'']" "''results''",
      THEN conjunct2, THEN conjunct1, THEN mp]
  note part3 = resolve_output_stem_policy
    [of "''foo.csv''" example_world "[''out'']" "''results''",
      THEN conjunct2, THEN conjunct2, THEN mp]
  have h1: "CHR ''/'' \<notin> set ''foo.csv'' \<and> ''foo.csv'' \<noteq> [] \<and> ''foo.csv'' \<noteq> ''.''"
    by simp
  have sfx: "suffix (parse_parts ''foo.csv'') = ''.csv''"
    by (simp add: path_eval)
  from part1 [OF h1] obtain foo where "foo @ suffix (parse_parts ''foo.csv'') = ''foo.csv''"
    and r1: "foo \<noteq> ''.'' \<longrightarrow>
               (\<forall>folder. truediv folder foo
                  = \<lparr>root = root folder, parts = parts folder @ [foo]\<rparr>)
               \<and> (\<forall>rs. rs \<noteq> [] \<and> (\<forall>x \<in> set rs. x \<noteq> [] \<and> x \<noteq> ''.'' \<and> CHR ''/'' \<notin> set x) \<longrightarrow>
                     resolve_output_stem example_world (YStr ''foo.csv'') (parse_parts (join ''/'' rs))
                       = ([], Inr (join ''/'' rs @ ''/'' @ foo)))"
    by (elim exE conjE)
  then have "foo @ ''.csv'' = ''foo'' @ ''.csv''" using sfx by simp
  then have "foo = ''foo''" by (simp only: append_same_eq)
  with r1 have "\<forall>rs. rs \<noteq> [] \<and> (\<forall>x \<in> set rs. x \<noteq> [] \<and> x \<noteq> ''.'' \<and> CHR ''/'' \<notin> set x) \<longrightarrow>
                     resolve_output_stem example_world (YStr ''foo.csv'') (parse_parts (join ''/'' rs))
                       = ([], Inr (join ''/'' rs @ ''/'' @ ''foo''))"
    by simp
  from this [rule_format, of "[''data'', ''imgs'']"]
  have c1: "resolve_output_stem example_world (YStr ''foo.csv'') (parse_parts ''data/imgs'')
       = ([], Inr ''data/imgs/foo'')"
    by simp
  have p2: "parse_parts ''/srv/out/results''
              = \<lparr>root = ''/'', parts = [''/'', ''srv'', ''out'', ''results'']\<rparr>"
    by (simp add: path_eval)
  have h2: "name (parse_parts ''/srv/out/results'') \<noteq> []
              \<and> (root (parse_parts ''/srv/out/results'') \<noteq> []
                   \<or> 2 \<le> length (parts (parse_parts ''/srv/out/results'')))"
    by (simp add: p2 name_def)
  from part2 [OF h2] obtain q where "with_suffix_empty (parse_parts ''/srv/out/results'') = Inr q"
    and r2: "\<forall>folder. resolve_output_stem example_world (YStr ''/srv/out/results'') folder
               = ([Call_mkdir (path_str (parent (parse_parts ''/srv/out/results''))) True True],
                  (case mkdir example_world
                          (path_str (parent (parse_parts ''/srv/out/results''))) True True of
                     Some e \<Rightarrow> Inl e
                   | None \<Rightarrow> Inr (path_str q)))"
    by (elim exE conjE)
  then have "q = parse_parts ''/srv/out/results''"
    by (simp add: p2 with_suffix_empty_def name_def suffix_def Let_def)
  with r2 have c2:
    "resolve_output_stem example_world (YStr ''/srv/out/results'') (parse_parts ''imgs'')
       = ([Call_mkdir ''/srv/out'' True True], Inr ''/srv/out/results'')"
    by (simp add: p2 parent_def path_str_def format_parsed_parts_def example_world_def)
  have h3: "[''out''] \<noteq> []
              \<and> (\<forall>x \<in> set ([''out''] @ [''results'']). x \<noteq> [] \<and> x \<noteq> ''.'' \<and> CHR ''/'' \<notin> set x)"
    by simp
  have j: "join ''/'' ([''out''] @ [''results'']) = ''out/results''"
    by simp
  have sfx3: "suffix (parse_parts ''out/results'') = []"
    by (simp add: path_eval)
  from part3 [OF h3] obtain foo' where
    "foo' @ suffix (parse_parts (join ''/'' ([''out''] @ [''results'']))) = ''results''"
    and r3: "\<forall>folder.
               resolve_output_stem example_world (YStr (join ''/'' ([''out''] @ [''results'']))) folder
               = ([Call_mkdir (join ''/'' [''out'']) True True],
                  (case mkdir example_world (join ''/'' [''out'']) True True of
                     Some e \<Rightarrow> Inl e
                   | None \<Rightarrow> Inr (join ''/'' ([''out''] @ [foo']))))"
    by (elim exE conjE)
  then have "foo' = ''results''" by (simp only: j sfx3 append_Nil2)
  with r3 have c3:
    "resolve_output_stem example_world (YStr ''out/results'') (parse_parts ''imgs'')
       = ([Call_mkdir ''out'' True True], Inr ''out/results'')"
    by (simp add: example_world_def)
  have h2': "name (parse_parts ''/srv/out/results'') \<noteq> [] \<and> root (parse_parts ''/srv/out/results'') \<noteq> []"
    by (simp add: p2 name_def)
  from h1 c1 h2' c2 c3 show ?thesis by (intro conjI) simp_all
qed

text \<open>
  Claim C10. The requested name \<^verbatim>\<open>./results\<close> takes the bare-filename branch for every
  image folder: the path parsed from it is the single component \<open>results\<close>, the
  stem is the folder's path with that component appended, and the block makes no call,
  so no directory is created.
\<close>

theorem dot_slash_results_is_bare:
  "parse_parts ''./results'' = \<lparr>root = [], parts = [''results'']\<rparr>
   \<and> resolve_output_stem w (YStr ''./results'') folder
       = ([], Inr (path_str \<lparr>root = root folder, parts = parts folder @ [''results'']\<rparr>))"
proof -
  have p: "parse_parts ''./results'' = \<lparr>root = [], parts = [''results'']\<rparr>"
    by (simp add: parse_parts_def splitroot_def)
  have ws: "with_suffix_empty \<lparr>root = [], parts = [''results'']\<rparr>
              = Inr \<lparr>root = [], parts = [''results'']\<rparr>"
    by (simp add: with_suffix_empty_def name_def suffix_def)
  have td: "truediv folder ''results''
              = \<lparr>root = root folder, parts = parts folder @ [''results'']\<rparr>"
    by (simp add: truediv_component)
  have "resolve_output_stem w (YStr ''./results'') folder
          = ([], Inr (path_str (truediv folder ''results'')))"
    by (simp add: resolve_output_stem_def p ws parent_def path_str_def
        format_parsed_parts_def name_def)
  with p td show ?thesis by simp
qed

theorem dot_slash_results_is_bare_witness:
  "resolve_output_stem example_world (YStr ''./results'') (parse_parts ''imgs'')
     = ([], Inr ''imgs/results'')"
  using dot_slash_results_is_bare [of example_world "parse_parts ''imgs''"]
  by (simp add: path_eval)

text \<open>
  Claim C9, as the code has it. When the resolution returns a stem,
  \<^verbatim>\<open>with_suffix('')\<close> has made of the requested path a path \<open>q\<close> with the same
  root and directories, whose final component followed by the last extension of the
  requested name is the requested final component. That extension is empty, or one dot
  followed by one or more characters other than a dot: only the last extension is
  stripped, and earlier ones stay. The stem is the string of \<open>q\<close>, or of the image
  folder joined with the final component of \<open>q\<close>. For the image folder of a run, a
  path parsed from a string, the stem is that final component or ends with \<open>/\<close> and
  that final component; the one exception is a bare name whose remainder is the dot
  (such as \<^verbatim>\<open>..csv\<close>), which the join drops, so that the stem is the image folder
  itself.
\<close>

theorem output_stem_last_suffix:
  assumes "resolve_output_stem w (YStr s) folder = (evs, Inr stem)"
  shows "\<exists>q. with_suffix_empty (parse_parts s) = Inr q
           \<and> root q = root (parse_parts s)
           \<and> butlast (parts q) = butlast (parts (parse_parts s))
           \<and> name q @ suffix (parse_parts s) = name (parse_parts s)
           \<and> name q \<noteq> [] \<and> CHR ''/'' \<notin> set (name q)
           \<and> (suffix (parse_parts s) = []
                \<or> (hd (suffix (parse_parts s)) = CHR ''.''
                    \<and> tl (suffix (parse_parts s)) \<noteq> []
                    \<and> CHR ''.'' \<notin> set (tl (suffix (parse_parts s)))))
           \<and> (stem = path_str q \<or> stem = path_str (truediv folder (name q)))
           \<and> (\<forall>r. folder = parse_parts r \<longrightarrow>
                 (if evs = [] \<and> name q = ''.'' then stem = path_str folder
                  else stem = name q \<or> (\<exists>pre. stem = pre @ ''/'' @ name q)))"
proof -
  have ne: "name (parse_parts s) \<noteq> []"
  proof
    assume "name (parse_parts s) = []"
    then have "resolve_output_stem w (YStr s) folder
                 = ([], Inl (ValueError (path_repr (parse_parts s) @ '' has an empty name'')))"
      by (simp add: resolve_output_stem_def with_suffix_empty_def)
    with assms show False by simp
  qed
  from with_suffix_empty_parse [OF ne] obtain q
    where ws: "with_suffix_empty (parse_parts s) = Inr q"
      and q: "root q = root (parse_parts s)"
             "butlast (parts q) = butlast (parts (parse_parts s))"
             "name q @ suffix (parse_parts s) = name (parse_parts s)"
    by blast
  from with_suffix_empty_shape [OF ne] ws obtain tail
    where shape: "parts q = (if root q \<noteq> [] then [root q] else []) @ tail @ [name q]"
      and nq: "name q \<noteq> []" "CHR ''/'' \<notin> set (name q)"
    by auto
  have branch:
    "(evs = [] \<and> stem = path_str (truediv folder (name q)))
     \<or> (evs \<noteq> [] \<and> stem = path_str q)"
    using assms ws
    by (auto simp: resolve_output_stem_def split: if_splits option.splits)
  then have either: "stem = path_str q \<or> stem = path_str (truediv folder (name q))"
    by blast
  have final: "if evs = [] \<and> name q = ''.'' then stem = path_str folder
               else stem = name q \<or> (\<exists>pre. stem = pre @ ''/'' @ name q)"
    if f: "folder = parse_parts r" for r
  proof (cases "evs = []")
    case True
    with branch have st: "stem = path_str (truediv folder (name q))" by blast
    show ?thesis
    proof (cases "name q = ''.''")
      case True
      with st \<open>evs = []\<close> show ?thesis by (simp add: truediv_dot)
    next
      case False
      with st nq f stem_under_folder_component [of "name q" r] show ?thesis by simp
    qed
  next
    case False
    with branch have st: "stem = path_str q" by blast
    have "root q \<in> {[], ''/'', ''//''}"
      using root_parse_parts [of s] q(1) by simp
    from path_str_final_component [OF this shape nq(1)] st False show ?thesis by simp
  qed
  from ws q nq suffix_shape [of "parse_parts s"] either final show ?thesis by blast
qed

theorem output_stem_last_suffix_witness:
  "resolve_output_stem example_world (YStr ''out/run.v2.csv'') (parse_parts ''imgs'')
     = ([Call_mkdir ''out'' True True], Inr ''out/run.v2'')
   \<and> (\<exists>q. with_suffix_empty (parse_parts ''out/run.v2.csv'') = Inr q
          \<and> name q @ ''.csv'' = ''run.v2.csv''
          \<and> ''out/run.v2'' = path_str q
          \<and> (''out/run.v2'' = name q \<or> (\<exists>pre. ''out/run.v2'' = pre @ ''/'' @ name q)))
   \<and> resolve_output_stem example_world (YStr ''..csv'') (parse_parts ''imgs'') = ([], Inr ''imgs'')
   \<and> (\<exists>q. with_suffix_empty (parse_parts ''..csv'') = Inr q
          \<and> name q = ''.''
          \<and> ''imgs'' = path_str (parse_parts ''imgs''))"
proof -
  have r: "resolve_output_stem example_world (YStr ''out/run.v2.csv'') (parse_parts ''imgs'')
     = ([Call_mkdir ''out'' True True], Inr ''out/run.v2'')"
    by (simp add: resolve_output_stem_def path_eval example_world_def)
  have p: "parse_parts ''out/run.v2.csv'' = \<lparr>root = [], parts = [''out'', ''run.v2.csv'']\<rparr>"
    by (simp add: path_eval)
  have sfx: "suffix (parse_parts ''out/run.v2.csv'') = ''.csv''"
    and nm: "name (parse_parts ''out/run.v2.csv'') = ''run.v2.csv''"
    by (simp_all add: p name_def suffix_def)
  from output_stem_last_suffix [OF r] obtain q
    where ws: "with_suffix_empty (parse_parts ''out/run.v2.csv'') = Inr q"
      and n: "name q @ suffix (parse_parts ''out/run.v2.csv'')
                = name (parse_parts ''out/run.v2.csv'')"
      and fin: "\<forall>r. parse_parts ''imgs'' = parse_parts r \<longrightarrow>
                 (if [Call_mkdir ''out'' True True] = [] \<and> name q = ''.''
                  then ''out/run.v2'' = path_str (parse_parts ''imgs'')
                  else ''out/run.v2'' = name q \<or> (\<exists>pre. ''out/run.v2'' = pre @ ''/'' @ name q))"
    by blast
  from fin [rule_format, of "''imgs''"]
  have fin': "''out/run.v2'' = name q \<or> (\<exists>pre. ''out/run.v2'' = pre @ ''/'' @ name q)"
    by simp
  from ws have qv: "q = \<lparr>root = [], parts = [''out'', ''run.v2'']\<rparr>"
    by (simp add: p with_suffix_empty_def name_def suffix_def)
  then have st: "''out/run.v2'' = path_str q"
    by (simp add: path_str_def format_parsed_parts_def)
  have first: "\<exists>q. with_suffix_empty (parse_parts ''out/run.v2.csv'') = Inr q
          \<and> name q @ ''.csv'' = ''run.v2.csv''
          \<and> ''out/run.v2'' = path_str q
          \<and> (''out/run.v2'' = name q \<or> (\<exists>pre. ''out/run.v2'' = pre @ ''/'' @ name q))"
    using ws n sfx nm st fin' by auto
  have r2: "resolve_output_stem example_world (YStr ''..csv'') (parse_parts ''imgs'')
              = ([], Inr ''imgs'')"
    by (simp add: resolve_output_stem_def path_eval)
  have p2: "parse_parts ''..csv'' = \<lparr>root = [], parts = [''..csv'']\<rparr>"
    by (simp add: path_eval)
  from output_stem_last_suffix [OF r2] obtain q2
    where ws2: "with_suffix_empty (parse_parts ''..csv'') = Inr q2"
      and fin2: "\<forall>r. parse_parts ''imgs'' = parse_parts r \<longrightarrow>
                 (if ([]::event list) = [] \<and> name q2 = ''.''
                  then ''imgs'' = path_str (parse_parts ''imgs'')
                  else ''imgs'' = name q2 \<or> (\<exists>pre. ''imgs'' = pre @ ''/'' @ name q2))"
    by blast
  from ws2 have "q2 = \<lparr>root = [], parts = [''.'']\<rparr>"
    by (simp add: p2 with_suffix_empty_def name_def suffix_def)
  then have n2: "name q2 = ''.''" by (simp add: name_def)
  with fin2 [rule_format, of "''imgs''"]
  have "''imgs'' = path_str (parse_parts ''imgs'')" by simp
  with ws2 n2 have second: "\<exists>q. with_suffix_empty (parse_parts ''..csv'') = Inr q
          \<and> name q = ''.''
          \<and> ''imgs'' = path_str (parse_parts ''imgs'')"
    by blast
  from r first r2 second show ?thesis by blast
qed

text \<open>The stem of the requested name \<^verbatim>\<open>a.tar.gz\<close> is \<^verbatim>\<open>imgs/a.tar\<close>, a path whose
  extension is \<^verbatim>\<open>.tar\<close>.\<close>

theorem output_stem_keeps_extension_counterexample:
  "resolve_output_stem example_world (YStr ''a.tar.gz'') (parse_parts ''imgs'')
     = ([], Inr ''imgs/a.tar'')
   \<and> suffix (parse_parts ''imgs/a.tar'') = ''.tar''"
  by (simp add: resolve_output_stem_def path_eval)

section \<open>Configuration and labels\<close>

text \<open>
  Claim C3. When the configuration file exists and loads as a mapping, \<^verbatim>\<open>load_config\<close>
  raises a \<^verbatim>\<open>ValueError\<close> whose message lists exactly the fields among
  \<^verbatim>\<open>detector_path\<close> and \<^verbatim>\<open>classifier_path\<close> that the mapping lacks, both when both
  are missing, and returns the mapping unchanged when it has both. Whatever the
  document is, one that \<^verbatim>\<open>load_config\<close> returns contains both fields.
\<close>

theorem load_config_required_fields:
  "(exists w (parse_parts config_path) = Inr True
      \<and> read_text w (path_str (parse_parts config_path)) = Inr text
      \<and> safe_load w text = Inr (YMap m) \<longrightarrow>
    load_config w config_path =
      (if YStr ''detector_path'' \<notin> fst ` set m \<and> YStr ''classifier_path'' \<notin> fst ` set m
       then Inl (ValueError ''Missing required config fields: detector_path, classifier_path'')
       else if YStr ''detector_path'' \<notin> fst ` set m
       then Inl (ValueError ''Missing required config fields: detector_path'')
       else if YStr ''classifier_path'' \<notin> fst ` set m
       then Inl (ValueError ''Missing required config fields: classifier_path'')
       else Inr (YMap m)))
   \<and> (load_config w config_path = Inr cfg \<longrightarrow>
        py_in ''detector_path'' cfg = Inr True \<and> py_in ''classifier_path'' cfg = Inr True)"
proof (intro conjI impI)
  assume "exists w (parse_parts config_path) = Inr True
      \<and> read_text w (path_str (parse_parts config_path)) = Inr text
      \<and> safe_load w text = Inr (YMap m)"
  then show "load_config w config_path =
      (if YStr ''detector_path'' \<notin> fst ` set m \<and> YStr ''classifier_path'' \<notin> fst ` set m
       then Inl (ValueError ''Missing required config fields: detector_path, classifier_path'')
       else if YStr ''detector_path'' \<notin> fst ` set m
       then Inl (ValueError ''Missing required config fields: detector_path'')
       else if YStr ''classifier_path'' \<notin> fst ` set m
       then Inl (ValueError ''Missing required config fields: classifier_path'')
       else Inr (YMap m))"
    by (simp add: load_config_def missing_fields_required_map)
next
  assume ok: "load_config w config_path = Inr cfg"
  then have "missing_fields required_fields cfg = Inr []"
    by (auto simp: load_config_def Let_def split: if_splits sum.splits)
  then show "py_in ''detector_path'' cfg = Inr True"
    and "py_in ''classifier_path'' cfg = Inr True"
    by (auto simp: required_fields_def split: sum.splits if_splits)
qed

theorem load_config_required_fields_witness:
  "exists world_without_classifier_path (parse_parts ''config.yaml'') = Inr True
   \<and> read_text world_without_classifier_path (path_str (parse_parts ''config.yaml''))
       = Inr ''detector_path: md.pt\<newline>''
   \<and> safe_load world_without_classifier_path ''detector_path: md.pt\<newline>''
       = Inr (YMap [(YStr ''detector_path'', YStr ''md.pt'')])
   \<and> load_config world_without_classifier_path ''config.yaml''
       = Inl (ValueError ''Missing required config fields: classifier_path'')
   \<and> load_config example_world ''config.yaml'' = Inr example_config
   \<and> py_in ''detector_path'' example_config = Inr True
   \<and> py_in ''classifier_path'' example_config = Inr True"
proof -
  have h: "exists world_without_classifier_path (parse_parts ''config.yaml'') = Inr True
      \<and> read_text world_without_classifier_path (path_str (parse_parts ''config.yaml''))
          = Inr ''detector_path: md.pt\<newline>''
      \<and> safe_load world_without_classifier_path ''detector_path: md.pt\<newline>''
          = Inr (YMap [(YStr ''detector_path'', YStr ''md.pt'')])"
    by (simp add: world_eval path_eval)
  from load_config_required_fields
    [of world_without_classifier_path "''config.yaml''" "''detector_path: md.pt\<newline>''"
        "[(YStr ''detector_path'', YStr ''md.pt'')]", THEN conjunct1, THEN mp, OF h]
  have c: "load_config world_without_classifier_path ''config.yaml''
       = Inl (ValueError ''Missing required config fields: classifier_path'')"
    by simp
  have h2: "exists example_world (parse_parts ''config.yaml'') = Inr True
      \<and> read_text example_world (path_str (parse_parts ''config.yaml''))
          = Inr ''detector_path: md.pt\<newline>classifier_path: awc.pth\<newline>label_path: labels.txt\<newline>''
      \<and> safe_load example_world
            ''detector_path: md.pt\<newline>classifier_path: awc.pth\<newline>label_path: labels.txt\<newline>''
          = Inr (YMap [(YStr ''detector_path'', YStr ''md.pt''),
                       (YStr ''classifier_path'', YStr ''awc.pth''),
                       (YStr ''label_path'', YStr ''labels.txt'')])"
    by (simp add: world_eval path_eval)
  from load_config_required_fields
    [of example_world "''config.yaml''"
        "''detector_path: md.pt\<newline>classifier_path: awc.pth\<newline>label_path: labels.txt\<newline>''" _ example_config,
      THEN conjunct1, THEN mp, OF h2]
  have ok: "load_config example_world ''config.yaml'' = Inr example_config"
    by (simp add: example_config_def)
  from load_config_required_fields
    [of example_world "''config.yaml''" "[]" "[]" example_config,
      THEN conjunct2, THEN mp, OF ok]
  have "py_in ''detector_path'' example_config = Inr True
        \<and> py_in ''classifier_path'' example_config = Inr True" .
  with h c ok show ?thesis by simp
qed

text \<open>
  Claim C4. For a label file that exists and reads as text, with at least one line that
  is not empty after stripping and does not start with \<open>#\<close>, \<^verbatim>\<open>load_labels\<close> returns
  the stripped lines of the file, in file order, that are not empty and do not start
  with \<open>#\<close>: nothing is reordered, merged or sorted. No label begins or ends with
  whitespace.
\<close>

theorem load_labels_file_order:
  assumes "exists w (parse_parts p) = Inr True"
    and "read_text w (path_str (parse_parts p)) = Inr text"
    and "\<exists>l \<in> set (file_lines text). strip l \<noteq> [] \<and> hd (strip l) \<noteq> CHR ''#''"
  shows "load_labels w (YStr p) =
     Inr (filter (\<lambda>l. l \<noteq> [] \<and> hd l \<noteq> CHR ''#'') (map strip (file_lines text)))
   \<and> (\<forall>l \<in> set (filter (\<lambda>l. l \<noteq> [] \<and> hd l \<noteq> CHR ''#'') (map strip (file_lines text))).
         \<not> isspace (hd l) \<and> \<not> isspace (last l))"
proof -
  have "\<forall>l \<in> set (filter (\<lambda>l. l \<noteq> [] \<and> hd l \<noteq> CHR ''#'') (map strip (file_lines text))).
         \<not> isspace (hd l) \<and> \<not> isspace (last l)"
    using strip_no_surrounding_space by auto
  moreover
  from assms(3) obtain l where "l \<in> set (file_lines text)"
    and "strip l \<noteq> [] \<and> hd (strip l) \<noteq> CHR ''#''" by blast
  then have "strip l \<in> set (filter (\<lambda>l. l \<noteq> [] \<and> hd l \<noteq> CHR ''#'')
                                 (map strip (file_lines text)))"
    by auto
  then have "filter (\<lambda>l. l \<noteq> [] \<and> hd l \<noteq> CHR ''#'') (map strip (file_lines text)) \<noteq> []"
    by (metis empty_iff list.set(1))
  then have "load_labels w (YStr p) =
     Inr (filter (\<lambda>l. l \<noteq> [] \<and> hd l \<noteq> CHR ''#'') (map strip (file_lines text)))"
    using assms(1,2) by (simp add: load_labels_def collect_labels_filter Let_def)
  ultimately show ?thesis by blast
qed

lemma example_label_lines:
  "file_lines ''# species\<newline>koala\<newline>\<newline>  dingo \<newline>koala\<newline>''
     = [''# species\<newline>'', ''koala\<newline>'', ''\<newline>'', ''  dingo \<newline>'', ''koala\<newline>'']"
  by (simp add: file_lines_def)

theorem load_labels_file_order_witness:
  "exists example_world (parse_parts ''labels.txt'') = Inr True
   \<and> read_text example_world (path_str (parse_parts ''labels.txt''))
       = Inr ''# species\<newline>koala\<newline>\<newline>  dingo \<newline>koala\<newline>''
   \<and> ''koala\<newline>'' \<in> set (file_lines ''# species\<newline>koala\<newline>\<newline>  dingo \<newline>koala\<newline>'')
   \<and> strip ''koala\<newline>'' = ''koala''
   \<and> load_labels example_world (YStr ''labels.txt'') = Inr [''koala'', ''dingo'', ''koala'']"
proof -
  let ?text = "''# species\<newline>koala\<newline>\<newline>  dingo \<newline>koala\<newline>''"
  have h1: "exists example_world (parse_parts ''labels.txt'') = Inr True"
    and h2: "read_text example_world (path_str (parse_parts ''labels.txt'')) = Inr ?text"
    by (simp_all add: world_eval path_eval)
  have s: "strip ''koala\<newline>'' = ''koala''"
    by (simp add: strip_def isspace_def)
  have m: "''koala\<newline>'' \<in> set (file_lines ?text)"
    by (simp add: example_label_lines)
  then have h3: "\<exists>l \<in> set (file_lines ?text). strip l \<noteq> [] \<and> hd (strip l) \<noteq> CHR ''#''"
    using s by (intro bexI [of _ "''koala\<newline>''"]) simp_all
  have f: "filter (\<lambda>l. l \<noteq> [] \<and> hd l \<noteq> CHR ''#'') (map strip (file_lines ?text))
             = [''koala'', ''dingo'', ''koala'']"
    by (simp add: example_label_lines strip_def isspace_def)
  from load_labels_file_order [OF h1 h2 h3, THEN conjunct1]
  have "load_labels example_world (YStr ''labels.txt'') = Inr [''koala'', ''dingo'', ''koala'']"
    by (simp only: f)
  with h1 h2 m s show ?thesis by simp
qed

text \<open>
  Claim C5. For a label file that exists and reads as text, all of whose lines are
  empty after stripping or have \<open>#\<close> as their first character after stripping,
  \<^verbatim>\<open>load_labels\<close> raises the \<^verbatim>\<open>ValueError\<close> "No labels found in" the file and
  returns no list.
\<close>

theorem load_labels_empty_set:
  assumes "exists w (parse_parts p) = Inr True"
    and "read_text w (path_str (parse_parts p)) = Inr text"
    and "\<forall>l \<in> set (file_lines text). strip l = [] \<or> hd (strip l) = CHR ''#''"
  shows "load_labels w (YStr p) = Inl (ValueError (''No labels found in '' @ p))"
proof -
  have "filter (\<lambda>l. l \<noteq> [] \<and> hd l \<noteq> CHR ''#'') (map strip (file_lines text)) = []"
    using assms(3) by (auto simp: filter_empty_conv)
  then show ?thesis
    using assms(1,2) by (simp add: load_labels_def collect_labels_filter Let_def)
qed

theorem load_labels_empty_set_witness:
  "exists world_comment_labels (parse_parts ''labels.txt'') = Inr True
   \<and> read_text world_comment_labels (path_str (parse_parts ''labels.txt''))
       = Inr ''# species\<newline>\<newline>   # none yet\<newline>''
   \<and> map strip (file_lines ''# species\<newline>\<newline>   # none yet\<newline>'')
       = [''# species'', '''', ''# none yet'']
   \<and> load_labels world_comment_labels (YStr ''labels.txt'')
       = Inl (ValueError ''No labels found in labels.txt'')"
proof -
  let ?text = "''# species\<newline>\<newline>   # none yet\<newline>''"
  have h1: "exists world_comment_labels (parse_parts ''labels.txt'') = Inr True"
    and h2: "read_text world_comment_labels (path_str (parse_parts ''labels.txt'')) = Inr ?text"
    by (simp_all add: world_eval path_eval)
  have l: "file_lines ?text = [''# species\<newline>'', ''\<newline>'', ''   # none yet\<newline>'']"
    by (simp add: file_lines_def)
  have s: "map strip (file_lines ?text) = [''# species'', '''', ''# none yet'']"
    by (simp add: l strip_def isspace_def)
  have h3: "\<forall>l \<in> set (file_lines ?text). strip l = [] \<or> hd (strip l) = CHR ''#''"
    by (simp add: l strip_def isspace_def)
  from load_labels_empty_set [OF h1 h2 h3] h1 h2 s show ?thesis by simp
qed

section \<open>The run\<close>

text \<open>
  Claim C8, as the code has it. The effective output name is the value of \<^verbatim>\<open>--output\<close>
  when the option is given with a non-empty value; otherwise, the option being absent
  or empty, it is the configuration's \<^verbatim>\<open>output_name\<close> when the mapping has that key,
  and the literal \<^verbatim>\<open>results\<close> when it has not.
\<close>

theorem output_name_precedence:
  "(out = Some s \<and> s \<noteq> [] \<longrightarrow> determine_output_name out cfg = Inr (YStr s))
   \<and> ((out = None \<or> out = Some []) \<and> map_of m (YStr ''output_name'') = Some v \<longrightarrow>
        determine_output_name out (YMap m) = Inr v)
   \<and> ((out = None \<or> out = Some []) \<and> map_of m (YStr ''output_name'') = None \<longrightarrow>
        determine_output_name out (YMap m) = Inr (YStr ''results''))"
  by (auto simp: determine_output_name_def)

theorem output_name_precedence_witness:
  "determine_output_name (Some ''run7'') (YMap [(YStr ''output_name'', YStr ''nightly'')])
     = Inr (YStr ''run7'')
   \<and> determine_output_name None (YMap [(YStr ''output_name'', YStr ''nightly'')])
       = Inr (YStr ''nightly'')
   \<and> determine_output_name None (YMap [(YStr ''topn'', YInt 3)]) = Inr (YStr ''results'')"
proof -
  note p = output_name_precedence
  have "determine_output_name (Some ''run7'') (YMap [(YStr ''output_name'', YStr ''nightly'')])
          = Inr (YStr ''run7'')"
    using p [of "Some ''run7''" "''run7''" "YMap [(YStr ''output_name'', YStr ''nightly'')]",
             THEN conjunct1]
    by simp
  moreover have "determine_output_name None (YMap [(YStr ''output_name'', YStr ''nightly'')])
          = Inr (YStr ''nightly'')"
    using p [of None _ _ "[(YStr ''output_name'', YStr ''nightly'')]" "YStr ''nightly''",
             THEN conjunct2, THEN conjunct1]
    by simp
  moreover have "determine_output_name None (YMap [(YStr ''topn'', YInt 3)])
          = Inr (YStr ''results'')"
    using p [of None _ _ "[(YStr ''topn'', YInt 3)]", THEN conjunct2, THEN conjunct2]
    by simp
  ultimately show ?thesis by simp
qed

text \<open>An override given as the empty string is not used: the configuration's
  \<^verbatim>\<open>output_name\<close> is, and without one the run writes to \<^verbatim>\<open>imgs/results\<close>.\<close>

theorem empty_override_counterexample:
  "determine_output_name (Some '''') (YMap [(YStr ''output_name'', YStr ''nightly'')])
     = Inr (YStr ''nightly'')
   \<and> main example_world (example_args\<lparr>output_override := Some ''''\<rparr>)
       = ([Call_DetectAndClassify (YStr ''md.pt'') (YStr ''awc.pth'')
             [''koala'', ''dingo'', ''koala''] (YStr ''tf_efficientnet_b5.ns_jft_in1k'')
             (YFloat 0x3FB999999999999A) (YFloat 0x3FE0000000000000),
           Call_predict [''imgs/a.jpg'', ''imgs/b.png''] (YInt 4) (YInt 1) ''imgs/results'' True],
          0)"
  by (simp add: determine_output_name_def main_def main_try_def step_def run_pipeline_def
      invoke_pipeline_def load_config_def load_labels_def resolve_output_stem_def
      required_fields_def file_lines_def strip_def isspace_def startswith_def
      world_eval path_eval)

text \<open>
  Claim C6. In a run whose configuration and labels load, whose image folder exists and
  is a directory, and whose image discovery returns no path, the trace is the one
  warning "No images found!", the exit status is 0, and the trace holds no call of
  the pipeline: neither its construction nor \<^verbatim>\<open>predict\<close>.
\<close>

theorem no_images_exit_0:
  assumes "load_config w (config a) = Inr cfg"
    and "subscript cfg ''label_path'' = Inr label_path"
    and "load_labels w label_path = Inr labels"
    and "stat w (path_str (parse_parts (image_folder a))) = Some Dir"
    and "get_all_image_paths w (path_str (parse_parts (image_folder a))) = Inr []"
  shows "main w a =
           ([LogRecord WARNING False ''No images found! Supported formats: .jpg, .jpeg, .png''], 0)
         \<and> (\<forall>ev \<in> set (fst (main w a)).
               case ev of Call_predict inp clas_bs topn out show_progress \<Rightarrow> False
                        | Call_DetectAndClassify d c l b dt ct \<Rightarrow> False
                        | _ \<Rightarrow> True)"
proof -
  have "main_try w a =
          ([LogRecord WARNING False ''No images found! Supported formats: .jpg, .jpeg, .png''],
           Inl (SystemExit 0))"
    using assms by (simp add: main_try_def step_Inr exists_def is_dir_def)
  then show ?thesis by (simp add: main_def)
qed

theorem no_images_exit_0_witness:
  "load_config world_no_images (config example_args) = Inr example_config
   \<and> subscript example_config ''label_path'' = Inr (YStr ''labels.txt'')
   \<and> load_labels world_no_images (YStr ''labels.txt'') = Inr [''koala'', ''dingo'', ''koala'']
   \<and> stat world_no_images (path_str (parse_parts (image_folder example_args))) = Some Dir
   \<and> get_all_image_paths world_no_images (path_str (parse_parts (image_folder example_args)))
       = Inr []
   \<and> main world_no_images example_args =
       ([LogRecord WARNING False ''No images found! Supported formats: .jpg, .jpeg, .png''], 0)"
proof -
  have h1: "load_config world_no_images (config example_args) = Inr example_config"
    by (simp add: load_config_def required_fields_def world_eval path_eval)
  have h2: "subscript example_config ''label_path'' = Inr (YStr ''labels.txt'')"
    by (simp add: example_config_def)
  have h3: "load_labels world_no_images (YStr ''labels.txt'')
              = Inr [''koala'', ''dingo'', ''koala'']"
    by (simp add: load_labels_def file_lines_def strip_def isspace_def startswith_def
        world_eval path_eval)
  have h4: "stat world_no_images (path_str (parse_parts (image_folder example_args))) = Some Dir"
    and h5: "get_all_image_paths world_no_images
               (path_str (parse_parts (image_folder example_args))) = Inr []"
    by (simp_all add: world_eval path_eval)
  from no_images_exit_0 [OF h1 h2 h3 h4 h5, THEN conjunct1] h1 h2 h3 h4 h5
  show ?thesis by simp
qed

text \<open>
  Claim C2 fails on the code. A configuration with \<^verbatim>\<open>detector_path\<close> and
  \<^verbatim>\<open>classifier_path\<close> but without \<^verbatim>\<open>label_path\<close> passes \<^verbatim>\<open>load_config\<close>; the
  subscript \<^verbatim>\<open>config['label_path']\<close> then raises \<^verbatim>\<open>KeyError\<close>, which the last
  \<^verbatim>\<open>except\<close> clause reports as "Unexpected error" with the traceback, exit status 1,
  where the claim has "Configuration error".
\<close>

theorem missing_label_path_unexpected_error:
  "load_config world_without_label_path ''config.yaml''
     = Inr (YMap [(YStr ''detector_path'', YStr ''md.pt''),
                  (YStr ''classifier_path'', YStr ''awc.pth'')])
   \<and> main world_without_label_path example_args
       = ([LogRecord ERROR True (''Unexpected error: '' @ [CHR 0x27] @ ''label_path'' @ [CHR 0x27])], 1)"
  by (simp add: run_eval world_eval path_eval)

text \<open>A configuration file that is not valid YAML makes \<^verbatim>\<open>yaml.safe_load\<close> raise
  \<^verbatim>\<open>yaml.YAMLError\<close>, and the run ends with "Unexpected error", not with
  "Configuration error". An exception raised by \<^verbatim>\<open>setup_logging\<close>, here the
  \<^verbatim>\<open>PermissionError\<close> of a log file that cannot be created, is raised before the
  \<^verbatim>\<open>try\<close> statement: no handler maps it, no record is logged, and the interpreter
  ends the process with its traceback.\<close>

theorem exception_taxonomy_counterexample:
  "safe_load world_malformed_config ''detector_path: [''
     = Inl (YAMLError ''while parsing a flow node'')
   \<and> main world_malformed_config example_args
       = ([LogRecord ERROR True ''Unexpected error: while parsing a flow node''], 1)
   \<and> script world_malformed_config example_args
       = ([LogRecord ERROR True ''Unexpected error: while parsing a flow node''], 1)
   \<and> script world_log_unwritable example_args
       = ([Uncaught (OtherException
             (''[Errno 13] Permission denied: '' @ [CHR 0x27]
                @ ''/work/inference_20240131_093000.log'' @ [CHR 0x27]))], 1)"
  by (simp add: script_def setup_logging_def run_eval world_eval path_eval)

text \<open>
  Claim C7, as the code has it. Every exception that leaves the \<^verbatim>\<open>try\<close> statement of
  \<^verbatim>\<open>main\<close> ends the run with exit status 1 after one ERROR record that closes the
  trace: "File not found: ..." for a \<^verbatim>\<open>FileNotFoundError\<close> (configuration file,
  label file or image folder that \<^verbatim>\<open>exists()\<close> reports absent), "Configuration
  error: ..." for a \<^verbatim>\<open>ValueError\<close> (\<^verbatim>\<open>detector_path\<close> or \<^verbatim>\<open>classifier_path\<close> missing
  from the mapping, image folder that is not a directory), and "Unexpected error: ..."
  with the traceback for any other exception, among them the parser's error for a
  document that is not valid YAML and the error \<^verbatim>\<open>exists()\<close> raises again for a path
  that cannot be examined. Nothing is retried: the handler's record is the last event,
  and a trace holds at most one call of \<^verbatim>\<open>predict\<close>. The \<^verbatim>\<open>try\<close> statement is
  entered when \<^verbatim>\<open>setup_logging\<close> returns; an exception that \<^verbatim>\<open>setup_logging\<close> raises
  is mapped to none of the three: it is not caught, and the process ends with status 1
  and the interpreter's traceback.
\<close>

theorem exception_taxonomy:
  "(main_try w a = (evs, Inl (Raise e)) \<longrightarrow>
      (\<forall>msg. e = FileNotFoundError msg \<longrightarrow>
         main w a = (evs @ [LogRecord ERROR False (''File not found: '' @ msg)], 1))
      \<and> (\<forall>msg. e = ValueError msg \<longrightarrow>
         main w a = (evs @ [LogRecord ERROR False (''Configuration error: '' @ msg)], 1))
      \<and> ((\<forall>msg. e \<noteq> FileNotFoundError msg \<and> e \<noteq> ValueError msg) \<longrightarrow>
         main w a = (evs @ [LogRecord ERROR True (''Unexpected error: '' @ exn_str e)], 1)))
   \<and> (exists w (parse_parts (config a)) = Inr False \<longrightarrow>
        main w a =
          ([LogRecord ERROR False (''File not found: Config file not found: '' @ config a)], 1))
   \<and> (load_config w (config a) = Inr cfg \<and> subscript cfg ''label_path'' = Inr (YStr lp)
        \<and> exists w (parse_parts lp) = Inr False \<longrightarrow>
        main w a =
          ([LogRecord ERROR False (''File not found: Labels file not found: '' @ lp)], 1))
   \<and> (load_config w (config a) = Inr cfg \<and> subscript cfg ''label_path'' = Inr label_path
        \<and> load_labels w label_path = Inr labels
        \<and> exists w (parse_parts (image_folder a)) = Inr False \<longrightarrow>
        main w a =
          ([LogRecord ERROR False
              (''File not found: Image folder not found: '' @ image_folder a)], 1))
   \<and> (exists w (parse_parts (config a)) = Inr True
        \<and> read_text w (path_str (parse_parts (config a))) = Inr text
        \<and> safe_load w text = Inr (YMap m)
        \<and> (YStr ''detector_path'' \<notin> fst ` set m \<or> YStr ''classifier_path'' \<notin> fst ` set m) \<longrightarrow>
        main w a =
          ([LogRecord ERROR False
              (''Configuration error: Missing required config fields: ''
                 @ join '', '' (filter (\<lambda>f. YStr f \<notin> fst ` set m)
                                  [''detector_path'', ''classifier_path'']))], 1))
   \<and> (load_config w (config a) = Inr cfg \<and> subscript cfg ''label_path'' = Inr label_path
        \<and> load_labels w label_path = Inr labels
        \<and> stat w (path_str (parse_parts (image_folder a))) = Some File \<longrightarrow>
        main w a =
          ([LogRecord ERROR False
              (''Configuration error: Not a directory: '' @ image_folder a)], 1))
   \<and> (exists w (parse_parts (config a)) = Inr True
        \<and> read_text w (path_str (parse_parts (config a))) = Inr text
        \<and> safe_load w text = Inl (YAMLError msg) \<longrightarrow>
        main w a = ([LogRecord ERROR True (''Unexpected error: '' @ msg)], 1))
   \<and> (exists w (parse_parts (config a)) = Inl e' \<longrightarrow> main_try w a = ([], Inl (Raise e')))
   \<and> length (filter is_predict (fst (main w a))) \<le> 1
   \<and> (setup_logging w = None \<longrightarrow> script w a = main w a)
   \<and> (setup_logging w = Some e'' \<longrightarrow> script w a = ([Uncaught e''], 1))"
proof (intro conjI)
  show "main_try w a = (evs, Inl (Raise e)) \<longrightarrow>
      (\<forall>msg. e = FileNotFoundError msg \<longrightarrow>
         main w a = (evs @ [LogRecord ERROR False (''File not found: '' @ msg)], 1))
      \<and> (\<forall>msg. e = ValueError msg \<longrightarrow>
         main w a = (evs @ [LogRecord ERROR False (''Configuration error: '' @ msg)], 1))
      \<and> ((\<forall>msg. e \<noteq> FileNotFoundError msg \<and> e \<noteq> ValueError msg) \<longrightarrow>
         main w a = (evs @ [LogRecord ERROR True (''Unexpected error: '' @ exn_str e)], 1))"
    using handler_classes [of w a evs e] by blast
  show "exists w (parse_parts (config a)) = Inr False \<longrightarrow>
        main w a =
          ([LogRecord ERROR False (''File not found: Config file not found: '' @ config a)], 1)"
    using config_file_missing [of w a] by blast
  show "load_config w (config a) = Inr cfg \<and> subscript cfg ''label_path'' = Inr (YStr lp)
        \<and> exists w (parse_parts lp) = Inr False \<longrightarrow>
        main w a =
          ([LogRecord ERROR False (''File not found: Labels file not found: '' @ lp)], 1)"
    using label_file_missing [of w a cfg lp] by blast
  show "load_config w (config a) = Inr cfg \<and> subscript cfg ''label_path'' = Inr label_path
        \<and> load_labels w label_path = Inr labels
        \<and> exists w (parse_parts (image_folder a)) = Inr False \<longrightarrow>
        main w a =
          ([LogRecord ERROR False
              (''File not found: Image folder not found: '' @ image_folder a)], 1)"
    using image_folder_missing [of w a cfg label_path labels] by blast
  show "exists w (parse_parts (config a)) = Inr True
        \<and> read_text w (path_str (parse_parts (config a))) = Inr text
        \<and> safe_load w text = Inr (YMap m)
        \<and> (YStr ''detector_path'' \<notin> fst ` set m \<or> YStr ''classifier_path'' \<notin> fst ` set m) \<longrightarrow>
        main w a =
          ([LogRecord ERROR False
              (''Configuration error: Missing required config fields: ''
                 @ join '', '' (filter (\<lambda>f. YStr f \<notin> fst ` set m)
                                  [''detector_path'', ''classifier_path'']))], 1)"
    using required_field_missing_message [of w a "text" m] by blast
  show "load_config w (config a) = Inr cfg \<and> subscript cfg ''label_path'' = Inr label_path
        \<and> load_labels w label_path = Inr labels
        \<and> stat w (path_str (parse_parts (image_folder a))) = Some File \<longrightarrow>
        main w a =
          ([LogRecord ERROR False
              (''Configuration error: Not a directory: '' @ image_folder a)], 1)"
    using image_folder_not_a_directory [of w a cfg label_path labels] by blast
  show "exists w (parse_parts (config a)) = Inr True
        \<and> read_text w (path_str (parse_parts (config a))) = Inr text
        \<and> safe_load w text = Inl (YAMLError msg) \<longrightarrow>
        main w a = ([LogRecord ERROR True (''Unexpected error: '' @ msg)], 1)"
    using malformed_document [of w a "text" msg] by blast
  show "exists w (parse_parts (config a)) = Inl e' \<longrightarrow> main_try w a = ([], Inl (Raise e'))"
    using config_stat_fails [of w a e'] by blast
  show "length (filter is_predict (fst (main w a))) \<le> 1"
    by (rule main_predict_once)
  show "setup_logging w = None \<longrightarrow> script w a = main w a"
    using script_cases [of w a] by blast
  show "setup_logging w = Some e'' \<longrightarrow> script w a = ([Uncaught e''], 1)"
    using script_cases [of w a e''] by blast
qed

theorem exception_taxonomy_witness:
  "main example_world (example_args\<lparr>config := ''nowhere.yaml''\<rparr>)
     = ([LogRecord ERROR False ''File not found: Config file not found: nowhere.yaml''], 1)
   \<and> main world_without_label_file example_args
       = ([LogRecord ERROR False ''File not found: Labels file not found: nolabels.txt''], 1)
   \<and> main example_world (example_args\<lparr>image_folder := ''nowhere''\<rparr>)
       = ([LogRecord ERROR False ''File not found: Image folder not found: nowhere''], 1)
   \<and> main world_without_classifier_path example_args
       = ([LogRecord ERROR False
             ''Configuration error: Missing required config fields: classifier_path''], 1)
   \<and> main example_world (example_args\<lparr>image_folder := ''labels.txt''\<rparr>)
       = ([LogRecord ERROR False ''Configuration error: Not a directory: labels.txt''], 1)
   \<and> main world_malformed_config (example_args\<lparr>output_override := Some ''run7''\<rparr>)
       = ([LogRecord ERROR True ''Unexpected error: while parsing a flow node''], 1)
   \<and> main example_world (example_args\<lparr>config := ''locked/config.yaml''\<rparr>)
       = ([LogRecord ERROR True
             (''Unexpected error: [Errno 13] Permission denied: '' @ [CHR 0x27]
                @ ''locked/config.yaml'' @ [CHR 0x27])], 1)
   \<and> main (example_world\<lparr>predict := (\<lambda>inp clas_bs topn out show_progress.
                                         Some (OtherException ''CUDA out of memory''))\<rparr>)
         example_args
       = ([Call_DetectAndClassify (YStr ''md.pt'') (YStr ''awc.pth'')
             [''koala'', ''dingo'', ''koala''] (YStr ''tf_efficientnet_b5.ns_jft_in1k'')
             (YFloat 0x3FB999999999999A) (YFloat 0x3FE0000000000000),
           Call_predict [''imgs/a.jpg'', ''imgs/b.png''] (YInt 4) (YInt 1) ''imgs/results'' True,
           LogRecord ERROR True ''Unexpected error: CUDA out of memory''], 1)
   \<and> length (filter is_predict (fst (main example_world example_args))) \<le> 1
   \<and> script example_world example_args = main example_world example_args
   \<and> script world_log_unwritable example_args
       = ([Uncaught (OtherException
             (''[Errno 13] Permission denied: '' @ [CHR 0x27]
                @ ''/work/inference_20240131_093000.log'' @ [CHR 0x27]))], 1)"
proof -
  let ?a1 = "example_args\<lparr>config := ''nowhere.yaml''\<rparr>"
  let ?a3 = "example_args\<lparr>image_folder := ''nowhere''\<rparr>"
  let ?a5 = "example_args\<lparr>image_folder := ''labels.txt''\<rparr>"
  let ?a6 = "example_args\<lparr>output_override := Some ''run7''\<rparr>"
  let ?a7 = "example_args\<lparr>config := ''locked/config.yaml''\<rparr>"
  let ?denied = "OtherException (''[Errno 13] Permission denied: '' @ [CHR 0x27]
                                   @ ''locked/config.yaml'' @ [CHR 0x27])"
  let ?w8 = "example_world\<lparr>predict := (\<lambda>inp clas_bs topn out show_progress.
                                         Some (OtherException ''CUDA out of memory''))\<rparr>"
  let ?evs = "[Call_DetectAndClassify (YStr ''md.pt'') (YStr ''awc.pth'')
                 [''koala'', ''dingo'', ''koala''] (YStr ''tf_efficientnet_b5.ns_jft_in1k'')
                 (YFloat 0x3FB999999999999A) (YFloat 0x3FE0000000000000),
               Call_predict [''imgs/a.jpg'', ''imgs/b.png''] (YInt 4) (YInt 1)
                 ''imgs/results'' True]"
  have cfg_ok: "load_config example_world (config a) = Inr example_config"
    if "config a = ''config.yaml''" for a
    using that by (simp add: load_config_def required_fields_def world_eval path_eval)
  have lp: "subscript example_config ''label_path'' = Inr (YStr ''labels.txt'')"
    by (simp add: example_config_def)
  have labels_ok: "load_labels example_world (YStr ''labels.txt'')
                     = Inr [''koala'', ''dingo'', ''koala'']"
    by (simp add: load_labels_def file_lines_def strip_def isspace_def startswith_def
        world_eval path_eval)
  have h1: "exists example_world (parse_parts (config ?a1)) = Inr False"
    by (simp add: world_eval path_eval)
  note c1 = exception_taxonomy [of example_world ?a1, THEN conjunct2, THEN conjunct1,
      THEN mp, OF h1]
  have h2: "load_config world_without_label_file (config example_args)
              = Inr (YMap [(YStr ''detector_path'', YStr ''md.pt''),
                           (YStr ''classifier_path'', YStr ''awc.pth''),
                           (YStr ''label_path'', YStr ''nolabels.txt'')])
            \<and> subscript (YMap [(YStr ''detector_path'', YStr ''md.pt''),
                           (YStr ''classifier_path'', YStr ''awc.pth''),
                           (YStr ''label_path'', YStr ''nolabels.txt'')]) ''label_path''
                = Inr (YStr ''nolabels.txt'')
            \<and> exists world_without_label_file (parse_parts ''nolabels.txt'') = Inr False"
    by (simp add: load_config_def required_fields_def world_eval path_eval)
  note c2 = exception_taxonomy [of world_without_label_file example_args,
      THEN conjunct2, THEN conjunct2, THEN conjunct1, THEN mp, OF h2]
  have h3: "load_config example_world (config ?a3) = Inr example_config
            \<and> subscript example_config ''label_path'' = Inr (YStr ''labels.txt'')
            \<and> load_labels example_world (YStr ''labels.txt'')
                = Inr [''koala'', ''dingo'', ''koala'']
            \<and> exists example_world (parse_parts (image_folder ?a3)) = Inr False"
    using lp labels_ok cfg_ok [of ?a3] by (simp add: world_eval path_eval)
  note c3 = exception_taxonomy [of example_world ?a3,
      THEN conjunct2, THEN conjunct2, THEN conjunct2, THEN conjunct1, THEN mp, OF h3]
  have h4: "exists world_without_classifier_path (parse_parts (config example_args)) = Inr True
            \<and> read_text world_without_classifier_path
                 (path_str (parse_parts (config example_args))) = Inr ''detector_path: md.pt\<newline>''
            \<and> safe_load world_without_classifier_path ''detector_path: md.pt\<newline>''
                = Inr (YMap [(YStr ''detector_path'', YStr ''md.pt'')])
            \<and> (YStr ''detector_path'' \<notin> fst ` set [(YStr ''detector_path'', YStr ''md.pt'')]
                 \<or> YStr ''classifier_path'' \<notin> fst ` set [(YStr ''detector_path'', YStr ''md.pt'')])"
    by (simp add: world_eval path_eval)
  note c4 = exception_taxonomy [of world_without_classifier_path example_args,
      THEN conjunct2, THEN conjunct2, THEN conjunct2, THEN conjunct2, THEN conjunct1,
      THEN mp, OF h4]
  have h5: "load_config example_world (config ?a5) = Inr example_config
            \<and> subscript example_config ''label_path'' = Inr (YStr ''labels.txt'')
            \<and> load_labels example_world (YStr ''labels.txt'')
                = Inr [''koala'', ''dingo'', ''koala'']
            \<and> stat example_world (path_str (parse_parts (image_folder ?a5))) = Some File"
    using lp labels_ok cfg_ok [of ?a5] by (simp add: world_eval path_eval)
  note c5 = exception_taxonomy [of example_world ?a5,
      THEN conjunct2, THEN conjunct2, THEN conjunct2, THEN conjunct2, THEN conjunct2,
      THEN conjunct1, THEN mp, OF h5]
  have h6: "exists world_malformed_config (parse_parts (config ?a6)) = Inr True
            \<and> read_text world_malformed_config (path_str (parse_parts (config ?a6)))
                = Inr ''detector_path: [''
            \<and> safe_load world_malformed_config ''detector_path: [''
                = Inl (YAMLError ''while parsing a flow node'')"
    by (simp add: world_eval path_eval)
  note c6 = exception_taxonomy [of world_malformed_config ?a6,
      THEN conjunct2, THEN conjunct2, THEN conjunct2, THEN conjunct2, THEN conjunct2,
      THEN conjunct2, THEN conjunct1, THEN mp, OF h6]
  have h7: "exists example_world (parse_parts (config ?a7)) = Inl ?denied"
    by (simp add: world_eval path_eval quote_def)
  note raised = exception_taxonomy [of example_world ?a7,
      THEN conjunct2, THEN conjunct2, THEN conjunct2, THEN conjunct2, THEN conjunct2,
      THEN conjunct2, THEN conjunct2, THEN conjunct1, THEN mp, OF h7]
  have h7': "\<forall>msg. ?denied \<noteq> FileNotFoundError msg \<and> ?denied \<noteq> ValueError msg"
    by simp
  note c7 = exception_taxonomy [of example_world ?a7, THEN conjunct1, THEN mp, OF raised,
      THEN conjunct2, THEN conjunct2, THEN mp, OF h7']
  have h8: "main_try ?w8 example_args = (?evs, Inl (Raise (OtherException ''CUDA out of memory'')))"
    by (simp add: run_eval world_eval path_eval)
  have h8': "\<forall>msg. OtherException ''CUDA out of memory'' \<noteq> FileNotFoundError msg
                 \<and> OtherException ''CUDA out of memory'' \<noteq> ValueError msg"
    by simp
  note c8 = exception_taxonomy [of ?w8 example_args, THEN conjunct1, THEN mp, OF h8,
      THEN conjunct2, THEN conjunct2, THEN mp, OF h8']
  note c9 = exception_taxonomy [of example_world example_args,
      THEN conjunct2, THEN conjunct2, THEN conjunct2, THEN conjunct2, THEN conjunct2,
      THEN conjunct2, THEN conjunct2, THEN conjunct2, THEN conjunct1]
  have h10: "setup_logging example_world = None"
    by (simp add: setup_logging_def example_world_def)
  note c10 = exception_taxonomy [of example_world example_args,
      THEN conjunct2, THEN conjunct2, THEN conjunct2, THEN conjunct2, THEN conjunct2,
      THEN conjunct2, THEN conjunct2, THEN conjunct2, THEN conjunct2, THEN conjunct1,
      THEN mp, OF h10]
  have h11: "setup_logging world_log_unwritable
               = Some (OtherException
                   (''[Errno 13] Permission denied: '' @ [CHR 0x27]
                      @ ''/work/inference_20240131_093000.log'' @ [CHR 0x27]))"
    by (simp add: setup_logging_def world_eval quote_def)
  note c11 = exception_taxonomy [of world_log_unwritable example_args,
      THEN conjunct2, THEN conjunct2, THEN conjunct2, THEN conjunct2, THEN conjunct2,
      THEN conjunct2, THEN conjunct2, THEN conjunct2, THEN conjunct2, THEN conjunct2,
      THEN mp, OF h11]
  from c1 c2 c3 c4 c5 c6 c7 c8 c9 c10 c11 show ?thesis
    by (simp add: example_args_def quote_def)
qed

end
